theory Spec2Isabelle
  imports Main "HOL-Library.Word" "HOL-Library.Char_ord" "HOL-Library.List_Lexorder"
begin

section \<open>The differential executor of cryptofuzz (executor.cpp)\<close>

text \<open>
  A shallow embedding of \<^verbatim>\<open>src/executor.cpp\<close>. The executor is a C++ class template
  \<^verbatim>\<open>ExecutorBase<ResultType, OperationType>\<close> whose member functions are specialised per
  operation family. Here every member function is a HOL function; what a function does
  besides returning a value (calling into a module, running the memory sanitizer probe,
  writing to a pool, terminating the process through \<^verbatim>\<open>abort\<close>) is recorded in a list of
  events and an outcome.
\<close>

subsection \<open>Values\<close>

type_synonym uint8_t = "8 word"
type_synonym uint64_t = "64 word"

text \<open>\<^verbatim>\<open>Buffer\<close> and the component types that are buffers (Digest, MAC, Key, Cleartext,
  AAD, Modifier): a byte vector. \<^verbatim>\<open>GetSize()\<close> is \<^const>\<open>length\<close>.\<close>

type_synonym Buffer = "uint8_t list"

text \<open>\<^verbatim>\<open>component::Bignum\<close>: a number kept as its decimal string; \<^verbatim>\<open>GetSize()\<close> is the
  length of that string.\<close>

type_synonym Bignum = string

text \<open>A \<^verbatim>\<open>std::shared_ptr<Module>\<close> is an address; \<^verbatim>\<open>nullptr\<close> is \<^const>\<open>None\<close> of
  \<^typ>\<open>nat option\<close> where the code can return it. Two module pointers are equal when they
  are the same address.\<close>

type_synonym Module_ptr = nat

text \<open>
  The identifiers \<^verbatim>\<open>ID("Cryptofuzz/Cipher/...")\<close>, \<^verbatim>\<open>CF_CIPHER(...)\<close>, \<^verbatim>\<open>CF_CALCOP(...)\<close> and
  \<^verbatim>\<open>CF_ECC_CURVE(...)\<close> are 64-bit constants generated outside executor.cpp. The code only
  compares an operation's identifier with the constants it names, so each identifier
  space is a datatype: one constructor for every constant executor.cpp names, and one
  for every other identifier.
\<close>

datatype CipherType =
    AES_128_OCB | AES_256_OCB
  | AES_128_GCM | AES_192_GCM | AES_256_GCM
  | AES_128_CCM | AES_192_CCM | AES_256_CCM
  | ARIA_128_CCM | ARIA_192_CCM | ARIA_256_CCM
  | ARIA_128_GCM | ARIA_192_GCM | ARIA_256_GCM
  | DES_EDE3_WRAP
  | Cipher_Other uint64_t

datatype CalcOp =
    SetBit_A_B | Exp_A_B | ModLShift_A_B_C | Exp2_A | Rand
  | CalcOp_Other uint64_t

datatype CurveType = ed25519 | ed448 | Curve_Other uint64_t

subsection \<open>Operations and results\<close>

text \<open>Every operation derives from \<^verbatim>\<open>Operation\<close>, which holds the modifier. The fields
  below are the ones executor.cpp reads.\<close>

record Operation =
  modifier :: Buffer

record SymmetricCipher =
  cipherType :: CipherType

record Ciphertext =
  ciphertext :: Buffer
  tag :: "Buffer option"

record SymmetricEncrypt = Operation +
  cleartext :: Buffer
  cipher :: SymmetricCipher
  aad :: "Buffer option"
  tagSize :: "uint64_t option"

text \<open>Modelled from the spec: the constructor \<^verbatim>\<open>operation::SymmetricDecrypt(op, ciphertext,
  cleartextSize, aad, modifier)\<close> is not part of executor.cpp. A SymmetricDecrypt holds the
  ciphertext and tag of the given \<^verbatim>\<open>Ciphertext\<close>, the cipher of the given SymmetricEncrypt,
  and the size of the output buffer, the AAD and the modifier it is given.\<close>

record SymmetricDecrypt = Operation +
  decrypt_ciphertext :: Buffer
  decrypt_cipher :: SymmetricCipher
  decrypt_tag :: "Buffer option"
  decrypt_aad :: "Buffer option"
  cleartextSize :: uint64_t

definition SymmetricDecrypt_from ::
  "'a SymmetricEncrypt_scheme \<Rightarrow> Ciphertext \<Rightarrow> uint64_t \<Rightarrow> Buffer option \<Rightarrow> Buffer \<Rightarrow> SymmetricDecrypt"
where
  "SymmetricDecrypt_from opEncrypt ct n a m =
     \<lparr> modifier = m,
       decrypt_ciphertext = ciphertext ct,
       decrypt_cipher = cipher opEncrypt,
       decrypt_tag = tag ct,
       decrypt_aad = a,
       cleartextSize = n \<rparr>"

text \<open>HMAC and CMAC: \<^verbatim>\<open>dontCompare\<close> reads \<^verbatim>\<open>operation.cipher.cipherType\<close> of both.\<close>

record HMAC = Operation +
  hmac_cipher :: SymmetricCipher

record CMAC = Operation +
  cmac_cipher :: SymmetricCipher

text \<open>\<^verbatim>\<open>operation::ECDSA_Sign\<close>: the curve, and what its method \<^verbatim>\<open>UseRandomNonce()\<close>
  returns.\<close>

record ECDSA_Sign = Operation +
  curveType :: CurveType
  UseRandomNonce :: bool

text \<open>\<^verbatim>\<open>component::ECC_PublicKey\<close> is a pair of bignums.\<close>

type_synonym ECC_PublicKey = "Bignum \<times> Bignum"

record ECC_PrivateToPublic = Operation +
  p2p_curveType :: CurveType
  priv :: Bignum



record BignumCalc = Operation +
  calcOp :: CalcOp
  bn0 :: Bignum
  bn1 :: Bignum
  bn2 :: Bignum
  bn3 :: Bignum
  modulo :: "Bignum option"

subsection \<open>Modules, options, constants\<close>

text \<open>A module (backend): its identifier, its name, its capability predicate and the
  family methods that the modelled functions call. A module's methods are opaque to the
  executor; here each is a function of the operation.\<close>

record Module =
  ID :: uint64_t
  name :: string
  SupportsModularBignumCalc :: bool
  OpSymmetricDecrypt :: "SymmetricDecrypt \<Rightarrow> Buffer option"
  OpBignumCalc :: "BignumCalc \<Rightarrow> Bignum option"
  OpECC_PrivateToPublic :: "ECC_PrivateToPublic \<Rightarrow> ECC_PublicKey option"

text \<open>\<^verbatim>\<open>Options\<close>. The filters \<^verbatim>\<open>calcOps.Have(id)\<close> and \<^verbatim>\<open>disableModules.HaveExplicit(id)\<close>
  are predicates; \<^verbatim>\<open>jsonDumpFP\<close> is an optional file handle.\<close>

record Options =
  calcOps_Have :: "CalcOp \<Rightarrow> bool"
  disableModules_HaveExplicit :: "uint64_t \<Rightarrow> bool"
  forceModule :: "uint64_t option"
  minModules :: nat
  noDecrypt :: bool
  noCompare :: bool
  disableTests :: bool
  debug :: bool
  jsonDumpFP :: "nat option"

text \<open>What executor.cpp takes from the rest of the program: the objects the module
  pointers point to, \<^verbatim>\<open>config::kMaxBignumSize\<close>, the identifier \<^verbatim>\<open>CF_MODULE("OpenSSL")\<close>
  and \<^verbatim>\<open>Bignum::ToTrimmedString\<close>.\<close>

record Environment =
  heap :: "Module_ptr \<Rightarrow> Module"
  kMaxBignumSize :: nat
  CF_MODULE_OpenSSL :: uint64_t
  ToTrimmedString :: "Bignum \<Rightarrow> string"

subsection \<open>Effects\<close>

text \<open>
  The events a member function leaves behind, in order:
  \<^item> \<open>ModuleOp m op\<close>: the family method of module \<open>m\<close> was invoked on \<open>op\<close>;
  \<^item> \<open>ModuleOpSymmetricDecrypt m op\<close>: \<^verbatim>\<open>m->OpSymmetricDecrypt(op)\<close> was invoked;
  \<^item> \<open>memory_test_msan bytes\<close>: the sanitizer probe ran over the region holding \<open>bytes\<close>;
  \<^item> \<open>Pool_Bignum_Set s\<close>: \<^verbatim>\<open>Pool_Bignum.Set(s)\<close>;
  \<^item> \<open>CallModule m op\<close>: \<^verbatim>\<open>Run\<close> called \<^verbatim>\<open>callModule(m, op)\<close>;
  \<^item> \<open>JsonDump op r\<close>: \<^verbatim>\<open>Run\<close> wrote the JSON line of \<open>op\<close> and \<open>r\<close>;
  \<^item> \<open>TestsTest op r\<close>: \<^verbatim>\<open>Run\<close> called \<^verbatim>\<open>tests::test(op, r)\<close>;
  \<^item> \<open>PrintOperation op\<close>: \<^verbatim>\<open>op.ToString()\<close> was printed;
  \<^item> \<open>PrintModuleResult m r\<close>: the name of \<open>m\<close> and the result \<open>r\<close> were printed.
  The remaining lines of diagnostic output (hex dumps, headings) are not recorded.
\<close>

datatype ('op, 'res) event =
    ModuleOp Module_ptr 'op
  | ModuleOpSymmetricDecrypt Module_ptr SymmetricDecrypt
  | memory_test_msan Buffer
  | Pool_Bignum_Set string
  | CallModule Module_ptr 'op
  | JsonDump 'op 'res
  | TestsTest 'op "'res option"
  | PrintOperation 'op
  | PrintModuleResult Module_ptr "'res option"

text \<open>\<^verbatim>\<open>ExecutorBase::abort\<close> sorts the module names, prints the line
  \<^verbatim>\<open>Assertion failure: <names, each followed by '-'><operation>-<algorithm>-<reason>\<close> and
  terminates the process. An \<open>Assertion_failure\<close> holds what the line is made of.\<close>

record Assertion_failure =
  failure_moduleNames :: "string list"
  failure_operation :: string
  failure_algorithm :: string
  failure_reason :: string

definition abort :: "string list \<Rightarrow> string \<Rightarrow> string \<Rightarrow> string \<Rightarrow> Assertion_failure" where
  "abort moduleNames operation algorithm reason =
     \<lparr> failure_moduleNames = sort moduleNames,
       failure_operation = operation,
       failure_algorithm = algorithm,
       failure_reason = reason \<rparr>"

definition abort_message :: "Assertion_failure \<Rightarrow> string" where
  "abort_message f =
     ''Assertion failure: '' @ concat (map (\<lambda>n. n @ ''-'') (failure_moduleNames f))
       @ failure_operation f @ ''-'' @ failure_algorithm f @ ''-'' @ failure_reason f"

text \<open>How a member function ends: it returns, the process is terminated by \<^const>\<open>abort\<close>,
  or a C++ exception leaves it.\<close>

datatype outcome = Returned | Aborted Assertion_failure | Exception

text \<open>A value, or the C++ exception thrown instead (the Datasource throws when it runs
  out of data; \<^verbatim>\<open>std::map::at\<close> throws on a missing key).\<close>

datatype 'a throwing = Throw | Return 'a

subsection \<open>postprocess, per family\<close>

text \<open>The families whose \<^verbatim>\<open>postprocess\<close> is the sanitizer probe over the result, when
  there is one. The module and the operation are unused.\<close>

definition postprocess_Digest ::
  "Module_ptr \<Rightarrow> 'op \<Rightarrow> Module_ptr \<times> Buffer option \<Rightarrow> ('op, Buffer) event list \<times> outcome" where
  "postprocess_Digest m op result =
     (if snd result \<noteq> None then ([memory_test_msan (the (snd result))], Returned)
      else ([], Returned))"

definition postprocess_HMAC ::
  "Module_ptr \<Rightarrow> 'op \<Rightarrow> Module_ptr \<times> Buffer option \<Rightarrow> ('op, Buffer) event list \<times> outcome" where
  "postprocess_HMAC m op result =
     (if snd result \<noteq> None then ([memory_test_msan (the (snd result))], Returned)
      else ([], Returned))"

definition postprocess_CMAC ::
  "Module_ptr \<Rightarrow> 'op \<Rightarrow> Module_ptr \<times> Buffer option \<Rightarrow> ('op, Buffer) event list \<times> outcome" where
  "postprocess_CMAC m op result =
     (if snd result \<noteq> None then ([memory_test_msan (the (snd result))], Returned)
      else ([], Returned))"

definition postprocess_SymmetricDecrypt ::
  "Module_ptr \<Rightarrow> 'op \<Rightarrow> Module_ptr \<times> Buffer option \<Rightarrow> ('op, Buffer) event list \<times> outcome" where
  "postprocess_SymmetricDecrypt m op result =
     (if snd result \<noteq> None then ([memory_test_msan (the (snd result))], Returned)
      else ([], Returned))"

definition postprocess_KDF_SCRYPT ::
  "Module_ptr \<Rightarrow> 'op \<Rightarrow> Module_ptr \<times> Buffer option \<Rightarrow> ('op, Buffer) event list \<times> outcome" where
  "postprocess_KDF_SCRYPT m op result =
     (if snd result \<noteq> None then ([memory_test_msan (the (snd result))], Returned)
      else ([], Returned))"

definition postprocess_KDF_HKDF ::
  "Module_ptr \<Rightarrow> 'op \<Rightarrow> Module_ptr \<times> Buffer option \<Rightarrow> ('op, Buffer) event list \<times> outcome" where
  "postprocess_KDF_HKDF m op result =
     (if snd result \<noteq> None then ([memory_test_msan (the (snd result))], Returned)
      else ([], Returned))"

definition postprocess_KDF_PBKDF ::
  "Module_ptr \<Rightarrow> 'op \<Rightarrow> Module_ptr \<times> Buffer option \<Rightarrow> ('op, Buffer) event list \<times> outcome" where
  "postprocess_KDF_PBKDF m op result =
     (if snd result \<noteq> None then ([memory_test_msan (the (snd result))], Returned)
      else ([], Returned))"

definition postprocess_KDF_PBKDF1 ::
  "Module_ptr \<Rightarrow> 'op \<Rightarrow> Module_ptr \<times> Buffer option \<Rightarrow> ('op, Buffer) event list \<times> outcome" where
  "postprocess_KDF_PBKDF1 m op result =
     (if snd result \<noteq> None then ([memory_test_msan (the (snd result))], Returned)
      else ([], Returned))"

definition postprocess_KDF_PBKDF2 ::
  "Module_ptr \<Rightarrow> 'op \<Rightarrow> Module_ptr \<times> Buffer option \<Rightarrow> ('op, Buffer) event list \<times> outcome" where
  "postprocess_KDF_PBKDF2 m op result =
     (if snd result \<noteq> None then ([memory_test_msan (the (snd result))], Returned)
      else ([], Returned))"

definition postprocess_KDF_ARGON2 ::
  "Module_ptr \<Rightarrow> 'op \<Rightarrow> Module_ptr \<times> Buffer option \<Rightarrow> ('op, Buffer) event list \<times> outcome" where
  "postprocess_KDF_ARGON2 m op result =
     (if snd result \<noteq> None then ([memory_test_msan (the (snd result))], Returned)
      else ([], Returned))"

definition postprocess_KDF_SSH ::
  "Module_ptr \<Rightarrow> 'op \<Rightarrow> Module_ptr \<times> Buffer option \<Rightarrow> ('op, Buffer) event list \<times> outcome" where
  "postprocess_KDF_SSH m op result =
     (if snd result \<noteq> None then ([memory_test_msan (the (snd result))], Returned)
      else ([], Returned))"

definition postprocess_KDF_TLS1_PRF ::
  "Module_ptr \<Rightarrow> 'op \<Rightarrow> Module_ptr \<times> Buffer option \<Rightarrow> ('op, Buffer) event list \<times> outcome" where
  "postprocess_KDF_TLS1_PRF m op result =
     (if snd result \<noteq> None then ([memory_test_msan (the (snd result))], Returned)
      else ([], Returned))"

definition postprocess_KDF_X963 ::
  "Module_ptr \<Rightarrow> 'op \<Rightarrow> Module_ptr \<times> Buffer option \<Rightarrow> ('op, Buffer) event list \<times> outcome" where
  "postprocess_KDF_X963 m op result =
     (if snd result \<noteq> None then ([memory_test_msan (the (snd result))], Returned)
      else ([], Returned))"

definition postprocess_KDF_BCRYPT ::
  "Module_ptr \<Rightarrow> 'op \<Rightarrow> Module_ptr \<times> Buffer option \<Rightarrow> ('op, Buffer) event list \<times> outcome" where
  "postprocess_KDF_BCRYPT m op result =
     (if snd result \<noteq> None then ([memory_test_msan (the (snd result))], Returned)
      else ([], Returned))"

definition postprocess_KDF_SP_800_108 ::
  "Module_ptr \<Rightarrow> 'op \<Rightarrow> Module_ptr \<times> Buffer option \<Rightarrow> ('op, Buffer) event list \<times> outcome" where
  "postprocess_KDF_SP_800_108 m op result =
     (if snd result \<noteq> None then ([memory_test_msan (the (snd result))], Returned)
      else ([], Returned))"

text \<open>BignumCalc: no probe; the trimmed result goes to the bignum pool when it is short
  enough.\<close>

definition postprocess_BignumCalc ::
  "Environment \<Rightarrow> Module_ptr \<Rightarrow> 'op \<Rightarrow> Module_ptr \<times> Bignum option \<Rightarrow> ('op, Bignum) event list \<times> outcome"
where
  "postprocess_BignumCalc env m op result =
     (if snd result \<noteq> None then
        (let bignum = ToTrimmedString env (the (snd result))
         in if length bignum \<le> kMaxBignumSize env then ([Pool_Bignum_Set bignum], Returned)
            else ([], Returned))
      else ([], Returned))"

text \<open>The families whose \<^verbatim>\<open>postprocess\<close> has an empty body, although the result is a
  \<^verbatim>\<open>component::Ciphertext\<close> (ECIES_Encrypt), a byte string (\<^verbatim>\<open>component::Cleartext\<close> for
  ECIES_Decrypt, \<^verbatim>\<open>component::Secret\<close> for ECDH_Derive, \<^verbatim>\<open>Buffer\<close> for Misc) or a
  \<^verbatim>\<open>component::Bignum\<close> (DH_Derive). The module, the operation and the result are unused.\<close>

definition postprocess_ECIES_Encrypt ::
  "Module_ptr \<Rightarrow> 'op \<Rightarrow> Module_ptr \<times> Ciphertext option \<Rightarrow> ('op, Ciphertext) event list \<times> outcome" where
  "postprocess_ECIES_Encrypt m op result = ([], Returned)"

definition postprocess_ECIES_Decrypt ::
  "Module_ptr \<Rightarrow> 'op \<Rightarrow> Module_ptr \<times> Buffer option \<Rightarrow> ('op, Buffer) event list \<times> outcome" where
  "postprocess_ECIES_Decrypt m op result = ([], Returned)"

definition postprocess_ECDH_Derive ::
  "Module_ptr \<Rightarrow> 'op \<Rightarrow> Module_ptr \<times> Buffer option \<Rightarrow> ('op, Buffer) event list \<times> outcome" where
  "postprocess_ECDH_Derive m op result = ([], Returned)"

definition postprocess_Misc ::
  "Module_ptr \<Rightarrow> 'op \<Rightarrow> Module_ptr \<times> Buffer option \<Rightarrow> ('op, Buffer) event list \<times> outcome" where
  "postprocess_Misc m op result = ([], Returned)"

definition postprocess_DH_Derive ::
  "Module_ptr \<Rightarrow> 'op \<Rightarrow> Module_ptr \<times> Bignum option \<Rightarrow> ('op, Bignum) event list \<times> outcome" where
  "postprocess_DH_Derive m op result = ([], Returned)"

text \<open>BLS_Compress_G1, the other family with a \<^verbatim>\<open>component::Bignum\<close> result that goes to the
  bignum pool: no probe either.\<close>

definition postprocess_BLS_Compress_G1 ::
  "Environment \<Rightarrow> Module_ptr \<Rightarrow> 'op \<Rightarrow> Module_ptr \<times> Bignum option \<Rightarrow> ('op, Bignum) event list \<times> outcome"
where
  "postprocess_BLS_Compress_G1 env m op result =
     (if snd result \<noteq> None then
        (let compressed = ToTrimmedString env (the (snd result))
         in if length compressed \<le> kMaxBignumSize env then ([Pool_Bignum_Set compressed], Returned)
            else ([], Returned))
      else ([], Returned))"

text \<open>SymmetricEncrypt. The local variable \<^verbatim>\<open>tryDecrypt\<close> of \<^verbatim>\<open>postprocess\<close> starts as true
  and is cleared by the \<^verbatim>\<open>switch\<close> on the cipher, which is entered for OpenSSL only.\<close>

definition tryDecrypt :: "Environment \<Rightarrow> Module_ptr \<Rightarrow> 'a SymmetricEncrypt_scheme \<Rightarrow> bool" where
  "tryDecrypt env m op =
     (if ID (heap env m) = CF_MODULE_OpenSSL env then
        (case cipherType (cipher op) of
           AES_128_OCB \<Rightarrow> False
         | AES_256_OCB \<Rightarrow> False
         | AES_128_GCM \<Rightarrow> (if tagSize op = None then False else True)
         | AES_192_GCM \<Rightarrow> (if tagSize op = None then False else True)
         | AES_256_GCM \<Rightarrow> (if tagSize op = None then False else True)
         | AES_128_CCM \<Rightarrow> (if tagSize op = None then False else True)
         | AES_192_CCM \<Rightarrow> (if tagSize op = None then False else True)
         | AES_256_CCM \<Rightarrow> (if tagSize op = None then False else True)
         | ARIA_128_CCM \<Rightarrow> (if tagSize op = None then False else True)
         | ARIA_192_CCM \<Rightarrow> (if tagSize op = None then False else True)
         | ARIA_256_CCM \<Rightarrow> (if tagSize op = None then False else True)
         | ARIA_128_GCM \<Rightarrow> (if tagSize op = None then False else True)
         | ARIA_192_GCM \<Rightarrow> (if tagSize op = None then False else True)
         | ARIA_256_GCM \<Rightarrow> (if tagSize op = None then False else True)
         | _ \<Rightarrow> True)
      else True)"

text \<open>The probes of \<^verbatim>\<open>postprocess\<close> for SymmetricEncrypt: the ciphertext, then the tag when
  there is one.\<close>

definition probe_Ciphertext :: "Ciphertext option \<Rightarrow> ('op, 'res) event list" where
  "probe_Ciphertext r =
     (case r of
        None \<Rightarrow> []
      | Some c \<Rightarrow>
          memory_test_msan (ciphertext c)
            # (case tag c of None \<Rightarrow> [] | Some t \<Rightarrow> [memory_test_msan t]))"

text \<open>\<^verbatim>\<open>op.Name()\<close> and \<^verbatim>\<open>op.GetAlgorithmString()\<close> are defined outside executor.cpp; the
  function takes them as \<open>op_Name\<close> and \<open>op_GetAlgorithmString\<close>. The size handed to the
  SymmetricDecrypt is computed in \<^verbatim>\<open>size_t\<close>, 64 bits wide.\<close>

definition postprocess_SymmetricEncrypt ::
  "Options \<Rightarrow> Environment \<Rightarrow> (SymmetricEncrypt \<Rightarrow> string) \<Rightarrow> (SymmetricEncrypt \<Rightarrow> string) \<Rightarrow>
   Module_ptr \<Rightarrow> SymmetricEncrypt \<Rightarrow> Module_ptr \<times> Ciphertext option \<Rightarrow>
   (SymmetricEncrypt, Ciphertext) event list \<times> outcome"
where
  "postprocess_SymmetricEncrypt opts env op_Name op_GetAlgorithmString m op result =
     (if noDecrypt opts = True then ([], Returned)
      else
        (let probes = probe_Ciphertext (snd result)
         in if length (cleartext op) > 0 \<and> snd result \<noteq> None
               \<and> length (ciphertext (the (snd result))) > 0 then
              (if tryDecrypt env m op = True then
                 (let opDecrypt =
                        SymmetricDecrypt_from op (the (snd result))
                          (of_nat (length (cleartext op)) + 32) (aad op) [];
                      decrypted = OpSymmetricDecrypt (heap env m) opDecrypt
                  in if decrypted = None then
                       (probes @ [ModuleOpSymmetricDecrypt m opDecrypt, PrintOperation op],
                        Aborted (abort [name (heap env m)] (op_Name op) (op_GetAlgorithmString op)
                                   ''cannot decrypt ciphertext''))
                     else if the decrypted \<noteq> cleartext op then
                       (probes @ [ModuleOpSymmetricDecrypt m opDecrypt, PrintOperation op],
                        Aborted (abort [name (heap env m)] (op_Name op) (op_GetAlgorithmString op)
                                   ''cannot decrypt ciphertext''))
                     else (probes @ [ModuleOpSymmetricDecrypt m opDecrypt], Returned))
               else (probes, Returned))
            else (probes, Returned)))"

subsection \<open>BignumCalc: callModule\<close>

definition callModule_BignumCalc ::
  "Options \<Rightarrow> Environment \<Rightarrow> Module_ptr \<Rightarrow> BignumCalc \<Rightarrow> (BignumCalc, Bignum) event list \<times> Bignum option"
where
  "callModule_BignumCalc opts env m op =
     (if \<not> calcOps_Have opts (calcOp op) then ([], None)
      else if length (bn0 op) > kMaxBignumSize env then ([], None)
      else if length (bn1 op) > kMaxBignumSize env then ([], None)
      else if length (bn2 op) > kMaxBignumSize env then ([], None)
      else if length (bn3 op) > kMaxBignumSize env then ([], None)
      else if modulo op \<noteq> None \<and> \<not> SupportsModularBignumCalc (heap env m) then ([], None)
      else
        (case calcOp op of
           SetBit_A_B \<Rightarrow>
             if length (bn1 op) > 4 then ([], None)
             else ([ModuleOp m op], OpBignumCalc (heap env m) op)
         | Exp_A_B \<Rightarrow>
             if length (bn0 op) > 5 \<or> length (bn1 op) > 2 then ([], None)
             else ([ModuleOp m op], OpBignumCalc (heap env m) op)
         | ModLShift_A_B_C \<Rightarrow>
             if length (bn1 op) > 4 then ([], None)
             else ([ModuleOp m op], OpBignumCalc (heap env m) op)
         | Exp2_A \<Rightarrow>
             if length (bn0 op) > 4 then ([], None)
             else ([ModuleOp m op], OpBignumCalc (heap env m) op)
         | _ \<Rightarrow> ([ModuleOp m op], OpBignumCalc (heap env m) op)))"

text \<open>The gates of \<^const>\<open>callModule_BignumCalc\<close>, as the specification lists them.\<close>

definition BignumCalc_gated :: "Options \<Rightarrow> Environment \<Rightarrow> Module_ptr \<Rightarrow> BignumCalc \<Rightarrow> bool" where
  "BignumCalc_gated opts env m op =
     (\<not> calcOps_Have opts (calcOp op)
      \<or> length (bn0 op) > kMaxBignumSize env \<or> length (bn1 op) > kMaxBignumSize env
      \<or> length (bn2 op) > kMaxBignumSize env \<or> length (bn3 op) > kMaxBignumSize env
      \<or> (modulo op \<noteq> None \<and> \<not> SupportsModularBignumCalc (heap env m))
      \<or> (calcOp op = SetBit_A_B \<and> length (bn1 op) > 4)
      \<or> (calcOp op = Exp_A_B \<and> (length (bn0 op) > 5 \<or> length (bn1 op) > 2))
      \<or> (calcOp op = ModLShift_A_B_C \<and> length (bn1 op) > 4)
      \<or> (calcOp op = Exp2_A \<and> length (bn0 op) > 4))"

subsection \<open>dontCompare, per family\<close>

text \<open>The primary template, used by every family without a specialisation.\<close>

definition dontCompare_default :: "'op \<Rightarrow> bool" where
  "dontCompare_default operation = False"

definition dontCompare_BignumCalc :: "BignumCalc \<Rightarrow> bool" where
  "dontCompare_BignumCalc operation = (if calcOp operation = Rand then True else False)"

definition dontCompare_ECDSA_Sign :: "ECDSA_Sign \<Rightarrow> bool" where
  "dontCompare_ECDSA_Sign operation =
     (if curveType operation \<noteq> ed25519 \<and> curveType operation \<noteq> ed448 then
        (if UseRandomNonce operation then True else False)
      else False)"

definition dontCompare_SymmetricEncrypt :: "SymmetricEncrypt \<Rightarrow> bool" where
  "dontCompare_SymmetricEncrypt operation =
     (if cipherType (cipher operation) = DES_EDE3_WRAP then True else False)"

definition dontCompare_SymmetricDecrypt :: "SymmetricDecrypt \<Rightarrow> bool" where
  "dontCompare_SymmetricDecrypt operation =
     (if cipherType (decrypt_cipher operation) = DES_EDE3_WRAP then True else False)"

definition dontCompare_CMAC :: "CMAC \<Rightarrow> bool" where
  "dontCompare_CMAC operation =
     (if cipherType (cmac_cipher operation) = DES_EDE3_WRAP then True else False)"

definition dontCompare_HMAC :: "HMAC \<Rightarrow> bool" where
  "dontCompare_HMAC operation =
     (if cipherType (hmac_cipher operation) = DES_EDE3_WRAP then True else False)"

subsection \<open>ExecutorBase\<close>

text \<open>The vector \<^verbatim>\<open>operations\<close> of \<^verbatim>\<open>Run\<close> (the task list), a \<^verbatim>\<open>ResultPair\<close> and a
  \<^verbatim>\<open>ResultSet\<close>.\<close>

type_synonym 'a Operations = "(Module_ptr \<times> 'a Operation_scheme) list"
type_synonym 'res ResultPair = "Module_ptr \<times> 'res option"
type_synonym 'res ResultSet = "(Module_ptr \<times> 'res option) list"

text \<open>
  An executor for one operation family. \<open>modules\<close> and \<open>options\<close> are the members of the
  C++ class; \<open>modules\<close>, a \<^verbatim>\<open>std::map\<close>, is the association list of its entries, read
  through \<^const>\<open>map_of\<close>. The other fields are what the class template takes from outside
  executor.cpp or from a specialisation:
  \<^item> the Datasource, a state of type \<open>'ds\<close> read by \<open>Get_bool\<close>, \<open>Get_uint64_t\<close> and
    \<open>GetData\<close> (\<^verbatim>\<open>GetData(0)\<close>), each returning the value and the state left, or throwing;
  \<^item> \<open>OperationType data m\<close>, the constructor of the operation from a fresh Datasource
    over the buffer \<open>data\<close> and the modifier \<open>m\<close>; \<open>MaxOperations\<close>, \<open>Name\<close> and
    \<open>GetAlgorithmString\<close> of the operation type; \<open>result_equal\<close>, the \<^verbatim>\<open>operator==\<close> of
    the result type; \<open>tests_test\<close>, how \<^verbatim>\<open>tests::test\<close> ends;
  \<^item> the family's member functions \<open>getOpPostprocess\<close>, \<open>callModule\<close>, \<open>postprocess\<close>,
    \<open>dontCompare\<close> and \<open>compare\<close>.
  The module methods and the hooks do not change the operation they are given.
\<close>

record ('ds, 'a, 'res) ExecutorBase =
  modules :: "(uint64_t \<times> Module_ptr) list"
  options :: Options
  environment :: Environment
  Get_bool :: "'ds \<Rightarrow> (bool \<times> 'ds) throwing"
  Get_uint64_t :: "'ds \<Rightarrow> (uint64_t \<times> 'ds) throwing"
  GetData :: "'ds \<Rightarrow> (Buffer \<times> 'ds) throwing"
  OperationType :: "Buffer \<Rightarrow> Buffer \<Rightarrow> 'a Operation_scheme throwing"
  MaxOperations :: nat
  Name :: "'a Operation_scheme \<Rightarrow> string"
  GetAlgorithmString :: "'a Operation_scheme \<Rightarrow> string"
  result_equal :: "'res \<Rightarrow> 'res \<Rightarrow> bool"
  tests_test :: "'a Operation_scheme \<Rightarrow> 'res option \<Rightarrow> outcome"
  getOpPostprocess :: "'ds \<Rightarrow> 'a Operation_scheme \<Rightarrow> ('a Operation_scheme \<times> 'ds) throwing"
  callModule ::
    "Module_ptr \<Rightarrow> 'a Operation_scheme \<Rightarrow> ('a Operation_scheme, 'res) event list \<times> 'res option"
  postprocess ::
    "Module_ptr \<Rightarrow> 'a Operation_scheme \<Rightarrow> Module_ptr \<times> 'res option \<Rightarrow>
     ('a Operation_scheme, 'res) event list \<times> outcome"
  dontCompare :: "'a Operation_scheme \<Rightarrow> bool"
  compare ::
    "(Module_ptr \<times> 'a Operation_scheme) list \<Rightarrow> (Module_ptr \<times> 'res option) list \<Rightarrow> Buffer \<Rightarrow>
     ('a Operation_scheme, 'res) event list \<times> outcome"

subsection \<open>getOpPostprocess, getOp, getModule\<close>

text \<open>The primary template of \<^verbatim>\<open>getOpPostprocess\<close> returns the operation as it is.\<close>

definition getOpPostprocess_default :: "'ds \<Rightarrow> 'op \<Rightarrow> ('op \<times> 'ds) throwing" where
  "getOpPostprocess_default parentDs op = Return (op, parentDs)"

text \<open>\<^verbatim>\<open>getOp(parentDs, data, size)\<close>. \<open>parentDs\<close> is a pointer: \<^const>\<open>None\<close> is \<^verbatim>\<open>nullptr\<close>.
  The function returns the operation and the state the parent Datasource is left in.\<close>

definition getOp ::
  "('ds, 'a, 'res) ExecutorBase \<Rightarrow> 'ds option \<Rightarrow> Buffer \<Rightarrow> ('a Operation_scheme \<times> 'ds option) throwing"
where
  "getOp ex parentDs data =
     (case parentDs of
        Some ds \<Rightarrow>
          (case GetData ex ds of
             Throw \<Rightarrow> Throw
           | Return (m, ds1) \<Rightarrow>
               (case OperationType ex data m of
                  Throw \<Rightarrow> Throw
                | Return op \<Rightarrow>
                    (case getOpPostprocess ex ds1 op of
                       Throw \<Rightarrow> Throw
                     | Return (op', ds2) \<Rightarrow> Return (op', Some ds2))))
      | None \<Rightarrow>
          (case OperationType ex data [] of
             Throw \<Rightarrow> Throw
           | Return op \<Rightarrow> Return (op, None)))"

text \<open>\<^verbatim>\<open>getModule(ds)\<close>: the module pointer (\<^const>\<open>None\<close> is \<^verbatim>\<open>nullptr\<close>) and the state the
  Datasource is left in.\<close>

definition getModule ::
  "('ds, 'a, 'res) ExecutorBase \<Rightarrow> 'ds \<Rightarrow> (Module_ptr option \<times> 'ds) throwing"
where
  "getModule ex ds =
     (case Get_uint64_t ex ds of
        Throw \<Rightarrow> Throw
      | Return (drawn, ds1) \<Rightarrow>
          (let moduleID = (case forceModule (options ex) of Some forced \<Rightarrow> forced | None \<Rightarrow> drawn)
           in if disableModules_HaveExplicit (options ex) moduleID then Return (None, ds1)
              else (case map_of (modules ex) moduleID of
                      None \<Rightarrow> Return (None, ds1)
                    | Some m \<Rightarrow> Return (Some m, ds1))))"


subsection \<open>The modular bignum-calc executors\<close>

text \<open>Modelled from the spec: \<^verbatim>\<open>component::Bignum(modulo)\<close>, the constructor of a bignum from
  a string, is not part of executor.cpp; a bignum made from a decimal string holds that
  string. \<^verbatim>\<open>SetModulo\<close> stores it in the member \<^verbatim>\<open>modulo\<close>, an optional bignum.\<close>

definition SetModulo :: "string \<Rightarrow> Bignum option" where
  "SetModulo s = Some s"

text \<open>The member \<^verbatim>\<open>modulo\<close> after each constructor.\<close>

definition ExecutorBignumCalc_Mod_BLS12_381_R_modulo :: "Bignum option" where
  "ExecutorBignumCalc_Mod_BLS12_381_R_modulo =
     SetModulo ''52435875175126190479447740508185965837690552500527637822603658699938581184513''"

definition ExecutorBignumCalc_Mod_BLS12_381_P_modulo :: "Bignum option" where
  "ExecutorBignumCalc_Mod_BLS12_381_P_modulo =
     SetModulo ''4002409555221667393417789825735904156556882819939007885332058136124031650490837864442687629129015664037894272559787''"

definition ExecutorBignumCalc_Mod_2Exp256_modulo :: "Bignum option" where
  "ExecutorBignumCalc_Mod_2Exp256_modulo =
     SetModulo ''115792089237316195423570985008687907853269984665640564039457584007913129639936''"

definition getOpPostprocess_Mod_BLS12_381_R :: "'ds \<Rightarrow> BignumCalc \<Rightarrow> (BignumCalc \<times> 'ds) throwing" where
  "getOpPostprocess_Mod_BLS12_381_R parentDs op =
     Return (op\<lparr>modulo := ExecutorBignumCalc_Mod_BLS12_381_R_modulo\<rparr>, parentDs)"

definition getOpPostprocess_Mod_BLS12_381_P :: "'ds \<Rightarrow> BignumCalc \<Rightarrow> (BignumCalc \<times> 'ds) throwing" where
  "getOpPostprocess_Mod_BLS12_381_P parentDs op =
     Return (op\<lparr>modulo := ExecutorBignumCalc_Mod_BLS12_381_P_modulo\<rparr>, parentDs)"

definition getOpPostprocess_Mod_2Exp256 :: "'ds \<Rightarrow> BignumCalc \<Rightarrow> (BignumCalc \<times> 'ds) throwing" where
  "getOpPostprocess_Mod_2Exp256 parentDs op =
     Return (op\<lparr>modulo := ExecutorBignumCalc_Mod_2Exp256_modulo\<rparr>, parentDs)"

subsection \<open>filter and compare\<close>

primrec filter_ResultSet :: "(Module_ptr \<times> 'res option) list \<Rightarrow> (Module_ptr \<times> 'res option) list" where
  "filter_ResultSet [] = []"
| "filter_ResultSet (result # results) =
     (if snd result = None then filter_ResultSet results
      else result # filter_ResultSet results)"

text \<open>The \<^verbatim>\<open>for\<close> loop of the default \<^verbatim>\<open>compare\<close>, from index \<open>i\<close>. It dereferences both
  results, which are present in a filtered set.\<close>

function compare_loop ::
  "('ds, 'a, 'res) ExecutorBase \<Rightarrow> Buffer \<Rightarrow> (Module_ptr \<times> 'res option) list \<Rightarrow> nat \<Rightarrow>
   ('a Operation_scheme, 'res) event list \<times> outcome"
where
  "compare_loop ex data filtered i =
     (if i < length filtered then
        (let prev = snd (filtered ! (i - 1));
             cur = snd (filtered ! i);
             equal = result_equal ex (the prev) (the cur)
         in if \<not> equal then
              (case getOp ex None data of
                 Throw \<Rightarrow> ([], Exception)
               | Return (op, ds) \<Rightarrow>
                   ([PrintOperation op,
                     PrintModuleResult (fst (filtered ! (i - 1))) prev,
                     PrintModuleResult (fst (filtered ! i)) cur],
                    Aborted
                      (abort
                         [name (heap (environment ex) (fst (filtered ! (i - 1)))),
                          name (heap (environment ex) (fst (filtered ! i)))]
                         (Name ex op) (GetAlgorithmString ex op) ''difference'')))
            else compare_loop ex data filtered (Suc i))
      else ([], Returned))"
  by pat_completeness auto
termination
  by (relation "measure (\<lambda>(ex, data, filtered, i). length filtered - i)") auto

declare compare_loop.simps [simp del]

definition compare_default ::
  "('ds, 'a, 'res) ExecutorBase \<Rightarrow> (Module_ptr \<times> 'a Operation_scheme) list \<Rightarrow>
   (Module_ptr \<times> 'res option) list \<Rightarrow> Buffer \<Rightarrow> ('a Operation_scheme, 'res) event list \<times> outcome"
where
  "compare_default ex operations results data =
     (if length results < 2 then ([], Returned)
      else
        (let filtered = filter_ResultSet results
         in if length filtered < 2 then ([], Returned)
            else if dontCompare ex (snd (operations ! 0)) = True then ([], Returned)
            else compare_loop ex data filtered 1))"

text \<open>The specialisations of \<^verbatim>\<open>compare\<close> for ECC_GenerateKeyPair and DH_GenerateKeyPair
  have an empty body.\<close>

definition compare_ECC_GenerateKeyPair ::
  "(Module_ptr \<times> 'op) list \<Rightarrow> (Module_ptr \<times> 'res option) list \<Rightarrow> Buffer \<Rightarrow> ('op, 'res) event list \<times> outcome"
where
  "compare_ECC_GenerateKeyPair operations results data = ([], Returned)"

definition compare_DH_GenerateKeyPair ::
  "(Module_ptr \<times> 'op) list \<Rightarrow> (Module_ptr \<times> 'res option) list \<Rightarrow> Buffer \<Rightarrow> ('op, 'res) event list \<times> outcome"
where
  "compare_DH_GenerateKeyPair operations results data = ([], Returned)"

subsection \<open>Run\<close>

text \<open>The \<^verbatim>\<open>do ... while\<close> loop of \<^verbatim>\<open>Run\<close>, which fills \<^verbatim>\<open>operations\<close>. \<^verbatim>\<open>continue\<close> jumps
  to the loop condition. Nothing in executor.cpp bounds the number of iterations (the
  Datasource does, by throwing when it is empty), so the result is an option, with
  \<^const>\<open>None\<close> for a loop that never ends.\<close>

partial_function (option) Run_operations ::
  "('ds, 'a, 'res) ExecutorBase \<Rightarrow> Buffer \<Rightarrow> 'ds \<Rightarrow> (Module_ptr \<times> 'a Operation_scheme) list \<Rightarrow>
   ((Module_ptr \<times> 'a Operation_scheme) list \<times> 'ds) throwing option"
where
  "Run_operations ex data parentDs operations =
     (case getOp ex (Some parentDs) data of
        Throw \<Rightarrow> Some Throw
      | Return (op, p) \<Rightarrow>
          (let ds1 = (case p of Some d \<Rightarrow> d | None \<Rightarrow> parentDs)
           in case getModule ex ds1 of
                Throw \<Rightarrow> Some Throw
              | Return (None, ds2) \<Rightarrow>
                  (case Get_bool ex ds2 of
                     Throw \<Rightarrow> Some Throw
                   | Return (again, ds3) \<Rightarrow>
                       if again = True then Run_operations ex data ds3 operations
                       else Some (Return (operations, ds3)))
              | Return (Some m, ds2) \<Rightarrow>
                  (let operations' = operations @ [(m, op)]
                   in if length operations' = MaxOperations ex then Some (Return (operations', ds2))
                      else
                        (case Get_bool ex ds2 of
                           Throw \<Rightarrow> Some Throw
                         | Return (again, ds3) \<Rightarrow>
                             if again = True then Run_operations ex data ds3 operations'
                             else Some (Return (operations', ds3))))))"

declare Run_operations.simps [code]

text \<open>The fan-out block: the identifiers of the modules that are not disabled, the
  identifiers of the modules already in \<^verbatim>\<open>operations\<close>, their \<^verbatim>\<open>std::set_difference\<close> (in
  ascending order, as a \<^verbatim>\<open>std::set\<close> is traversed), and the \<^verbatim>\<open>push_back\<close> of one task per
  identifier left.\<close>

definition moduleIDs :: "('ds, 'a, 'res) ExecutorBase \<Rightarrow> uint64_t set" where
  "moduleIDs ex =
     fold (\<lambda>m s. if disableModules_HaveExplicit (options ex) (fst m) then s else insert (fst m) s)
       (modules ex) {}"

definition operationModuleIDs ::
  "('ds, 'a, 'res) ExecutorBase \<Rightarrow> (Module_ptr \<times> 'a Operation_scheme) list \<Rightarrow> uint64_t set"
where
  "operationModuleIDs ex operations =
     fold (\<lambda>op s. insert (ID (heap (environment ex) (fst op))) s) operations {}"

definition addModuleIDs ::
  "('ds, 'a, 'res) ExecutorBase \<Rightarrow> (Module_ptr \<times> 'a Operation_scheme) list \<Rightarrow> uint64_t list"
where
  "addModuleIDs ex operations =
     sorted_list_of_set (moduleIDs ex - operationModuleIDs ex operations)"

primrec push_back_modules ::
  "('ds, 'a, 'res) ExecutorBase \<Rightarrow> uint64_t list \<Rightarrow> (Module_ptr \<times> 'a Operation_scheme) list \<Rightarrow>
   (Module_ptr \<times> 'a Operation_scheme) list throwing"
where
  "push_back_modules ex [] operations = Return operations"
| "push_back_modules ex (moduleID # moduleIDs') operations =
     (case map_of (modules ex) moduleID of
        None \<Rightarrow> Throw
      | Some m \<Rightarrow> push_back_modules ex moduleIDs' (operations @ [(m, snd (operations ! 0))]))"

definition Run_fan_out ::
  "('ds, 'a, 'res) ExecutorBase \<Rightarrow> (Module_ptr \<times> 'a Operation_scheme) list \<Rightarrow>
   (Module_ptr \<times> 'a Operation_scheme) list throwing"
where
  "Run_fan_out ex operations = push_back_modules ex (addModuleIDs ex operations) operations"

text \<open>The modifier of a duplicate task: 512 bytes of 1 when it is empty, each byte
  incremented (a \<^verbatim>\<open>uint8_t\<close>, so 255 becomes 0) otherwise.\<close>

definition mutate_modifier :: "Buffer \<Rightarrow> Buffer" where
  "mutate_modifier curModifier =
     (if length curModifier = 0 then replicate 512 1
      else map (\<lambda>c. c + 1) curModifier)"

text \<open>The block \<^verbatim>\<open>if ( i > 0 )\<close> of the execution loop: the operation of task \<open>i\<close> after
  it. \<^verbatim>\<open>prevOp\<close> is bound to \<^verbatim>\<open>operations[i].second\<close> in the source.\<close>

definition Run_modifier :: "nat \<Rightarrow> (Module_ptr \<times> 'a Operation_scheme) list \<Rightarrow> 'a Operation_scheme" where
  "Run_modifier i operations =
     (let module = fst (operations ! i);
          op = snd (operations ! i)
      in if i > 0 then
           (let prevModule = fst (operations ! (i - 1));
                prevOp = snd (operations ! i)
            in if prevModule = module \<and> modifier prevOp = modifier op then
                 op\<lparr>modifier := mutate_modifier (modifier op)\<rparr>
               else op)
         else op)"

text \<open>The rest of the loop body: the call, the JSON dump, the debug output, the tests
  and \<^verbatim>\<open>postprocess\<close>. The result is the \<^verbatim>\<open>ResultPair\<close> pushed to \<^verbatim>\<open>results\<close>, the events and
  how the body ended.\<close>

definition Run_task ::
  "('ds, 'a, 'res) ExecutorBase \<Rightarrow> Module_ptr \<Rightarrow> 'a Operation_scheme \<Rightarrow>
   (Module_ptr \<times> 'res option) \<times> ('a Operation_scheme, 'res) event list \<times> outcome"
where
  "Run_task ex module op =
     (let called = callModule ex module op;
          result = (module, snd called);
          dump = (if snd result \<noteq> None \<and> jsonDumpFP (options ex) \<noteq> None
                  then [JsonDump op (the (snd result))] else []);
          shown = (if debug (options ex) = True then [PrintModuleResult module (snd result)] else []);
          events = CallModule module op # fst called @ dump @ shown
      in if disableTests (options ex) = False then
           (if tests_test ex op (snd result) = Returned then
              (let post = postprocess ex module op result
               in (result, events @ [TestsTest op (snd result)] @ fst post, snd post))
            else (result, events @ [TestsTest op (snd result)], tests_test ex op (snd result)))
         else
           (let post = postprocess ex module op result
            in (result, events @ fst post, snd post)))"

text \<open>The execution loop \<^verbatim>\<open>for (size_t i = 0; i < operations.size(); i++)\<close>, from index
  \<open>i\<close>, with the vectors \<^verbatim>\<open>operations\<close> and \<^verbatim>\<open>results\<close> and the events so far. The loop ends
  early when a body does not return.\<close>

function Run_loop ::
  "('ds, 'a, 'res) ExecutorBase \<Rightarrow> nat \<Rightarrow> (Module_ptr \<times> 'a Operation_scheme) list \<Rightarrow>
   (Module_ptr \<times> 'res option) list \<Rightarrow> ('a Operation_scheme, 'res) event list \<Rightarrow>
   (Module_ptr \<times> 'a Operation_scheme) list \<times> (Module_ptr \<times> 'res option) list \<times>
   ('a Operation_scheme, 'res) event list \<times> outcome"
where
  "Run_loop ex i operations results events =
     (if i < length operations then
        (let module = fst (operations ! i);
             op = Run_modifier i operations;
             operations' = operations[i := (module, op)];
             ran = Run_task ex module op;
             results' = results @ [fst ran];
             events' = events @ fst (snd ran)
         in if snd (snd ran) = Returned then Run_loop ex (Suc i) operations' results' events'
            else (operations', results', events', snd (snd ran)))
      else (operations, results, events, Returned))"
  by pat_completeness auto
termination
  by (relation "measure (\<lambda>(ex, i, operations, results, events). length operations - i)") auto

declare Run_loop.simps [simp del]

text \<open>\<^verbatim>\<open>Run(parentDs, data, size)\<close>: the events of the run and how it ended, or \<^const>\<open>None\<close>
  when the first loop never ends.\<close>

definition Run ::
  "('ds, 'a, 'res) ExecutorBase \<Rightarrow> 'ds \<Rightarrow> Buffer \<Rightarrow>
   (('a Operation_scheme, 'res) event list \<times> outcome) option"
where
  "Run ex parentDs data =
     (case Run_operations ex data parentDs [] of
        None \<Rightarrow> None
      | Some Throw \<Rightarrow> Some ([], Exception)
      | Some (Return (operations, ds)) \<Rightarrow>
          if operations = [] then Some ([], Returned)
          else
            (case Run_fan_out ex operations of
               Throw \<Rightarrow> Some ([], Exception)
             | Return operations \<Rightarrow>
                 if length operations < minModules (options ex) then Some ([], Returned)
                 else
                   (let shown = (if debug (options ex) = True \<and> operations \<noteq> []
                                 then [PrintOperation (snd (operations ! 0))] else []);
                        ran = Run_loop ex 0 operations [] shown
                    in if snd (snd (snd ran)) = Returned then
                         (if noCompare (options ex) = False then
                            (let compared = compare ex (fst ran) (fst (snd ran)) data
                             in Some (fst (snd (snd ran)) @ fst compared, snd compared))
                          else Some (fst (snd (snd ran)), Returned))
                       else Some (fst (snd (snd ran)), snd (snd (snd ran))))))"

subsection \<open>The executors of BignumCalc\<close>

text \<open>
  \<^verbatim>\<open>ExecutorBignumCalc\<close> is an \<^verbatim>\<open>ExecutorBase<component::Bignum, operation::BignumCalc>\<close>: its
  member functions are the BignumCalc specialisations, and the default \<^verbatim>\<open>compare\<close>. \<open>base\<close>
  gives the modules, the options and what comes from outside executor.cpp. The three
  subclasses override \<^verbatim>\<open>getOpPostprocess\<close>.
\<close>

definition ExecutorBignumCalc ::
  "('ds, unit BignumCalc_ext, Bignum) ExecutorBase \<Rightarrow> ('ds, unit BignumCalc_ext, Bignum) ExecutorBase"
where
  "ExecutorBignumCalc base =
     (let ex = base
            \<lparr> getOpPostprocess := getOpPostprocess_default,
              callModule := callModule_BignumCalc (options base) (environment base),
              postprocess := postprocess_BignumCalc (environment base),
              dontCompare := dontCompare_BignumCalc \<rparr>
      in ex\<lparr>compare := compare_default ex\<rparr>)"

definition ExecutorBignumCalc_Mod_BLS12_381_R ::
  "('ds, unit BignumCalc_ext, Bignum) ExecutorBase \<Rightarrow> ('ds, unit BignumCalc_ext, Bignum) ExecutorBase"
where
  "ExecutorBignumCalc_Mod_BLS12_381_R base =
     (let ex = (ExecutorBignumCalc base)\<lparr>getOpPostprocess := getOpPostprocess_Mod_BLS12_381_R\<rparr>
      in ex\<lparr>compare := compare_default ex\<rparr>)"

definition ExecutorBignumCalc_Mod_BLS12_381_P ::
  "('ds, unit BignumCalc_ext, Bignum) ExecutorBase \<Rightarrow> ('ds, unit BignumCalc_ext, Bignum) ExecutorBase"
where
  "ExecutorBignumCalc_Mod_BLS12_381_P base =
     (let ex = (ExecutorBignumCalc base)\<lparr>getOpPostprocess := getOpPostprocess_Mod_BLS12_381_P\<rparr>
      in ex\<lparr>compare := compare_default ex\<rparr>)"

definition ExecutorBignumCalc_Mod_2Exp256 ::
  "('ds, unit BignumCalc_ext, Bignum) ExecutorBase \<Rightarrow> ('ds, unit BignumCalc_ext, Bignum) ExecutorBase"
where
  "ExecutorBignumCalc_Mod_2Exp256 base =
     (let ex = (ExecutorBignumCalc base)\<lparr>getOpPostprocess := getOpPostprocess_Mod_2Exp256\<rparr>
      in ex\<lparr>compare := compare_default ex\<rparr>)"


subsection \<open>Concrete inputs\<close>

text \<open>Two modules, an option set, an environment and operations, at which the theorems
  below are instantiated. The module at address 0 is OpenSSL, with identifier 1; the one at
  every other address is Botan, with identifier 2. Decryption drops the first byte of the
  ciphertext; a bignum calculation returns bn0 in OpenSSL and bn1 in Botan.\<close>

definition example_Module :: "uint64_t \<Rightarrow> string \<Rightarrow> Module" where
  "example_Module i n =
     \<lparr> ID = i, name = n, SupportsModularBignumCalc = True,
       OpSymmetricDecrypt = (\<lambda>op. Some (drop 1 (decrypt_ciphertext op))),
       OpBignumCalc = (\<lambda>op. Some (if i = 1 then bn0 op else bn1 op)),
       OpECC_PrivateToPublic = (\<lambda>op. Some (priv op, priv op)) \<rparr>"

definition example_Options :: Options where
  "example_Options =
     \<lparr> calcOps_Have = (\<lambda>c. True), disableModules_HaveExplicit = (\<lambda>i. False),
       forceModule = None, minModules = 0, noDecrypt = False, noCompare = False,
       disableTests = False, debug = False, jsonDumpFP = None \<rparr>"

definition example_Environment :: Environment where
  "example_Environment =
     \<lparr> heap = (\<lambda>p. if p = 0 then example_Module 1 ''OpenSSL'' else example_Module 2 ''Botan''),
       kMaxBignumSize = 4000, CF_MODULE_OpenSSL = 1, ToTrimmedString = (\<lambda>s. s) \<rparr>"

definition example_BignumCalc :: BignumCalc where
  "example_BignumCalc =
     \<lparr> modifier = [], calcOp = Exp_A_B, bn0 = ''123456'', bn1 = ''2'', bn2 = [], bn3 = [],
       modulo = None \<rparr>"

definition example_SymmetricEncrypt :: SymmetricEncrypt where
  "example_SymmetricEncrypt =
     \<lparr> modifier = [7], cleartext = [5], cipher = \<lparr> cipherType = AES_256_GCM \<rparr>,
       aad = Some [3], tagSize = Some 16 \<rparr>"

definition example_Ciphertext :: Ciphertext where
  "example_Ciphertext = \<lparr> ciphertext = [0, 5], tag = Some [9] \<rparr>"

text \<open>A Datasource over a list of numbers: a boolean is the parity of the next number, a
  64-bit value is the next number, and a byte string is a length followed by that many
  numbers. Each read throws when the list is too short.\<close>

definition example_Get_bool :: "nat list \<Rightarrow> (bool \<times> nat list) throwing" where
  "example_Get_bool ds = (case ds of [] \<Rightarrow> Throw | x # rest \<Rightarrow> Return (odd x, rest))"

definition example_Get_uint64_t :: "nat list \<Rightarrow> (uint64_t \<times> nat list) throwing" where
  "example_Get_uint64_t ds = (case ds of [] \<Rightarrow> Throw | x # rest \<Rightarrow> Return (of_nat x, rest))"

definition example_GetData :: "nat list \<Rightarrow> (Buffer \<times> nat list) throwing" where
  "example_GetData ds =
     (case ds of
        [] \<Rightarrow> Throw
      | n # rest \<Rightarrow>
          if length rest < n then Throw
          else Return (map of_nat (take n rest), drop n rest))"

text \<open>An executor over that Datasource, with the two modules registered under their
  identifiers 1 and 2, for the operation type whose constructor is \<open>from_data\<close>. Its family
  functions are those of a family without specialisations and with an empty \<^verbatim>\<open>callModule\<close>.\<close>

definition example_ExecutorBase ::
  "(Buffer \<Rightarrow> Buffer \<Rightarrow> 'a Operation_scheme throwing) \<Rightarrow> (nat list, 'a, 'res) ExecutorBase"
where
  "example_ExecutorBase from_data =
     \<lparr> modules = [(1, 0), (2, 1)],
       options = example_Options,
       environment = example_Environment,
       Get_bool = example_Get_bool,
       Get_uint64_t = example_Get_uint64_t,
       GetData = example_GetData,
       OperationType = from_data,
       MaxOperations = 3,
       Name = (\<lambda>op. ''Operation''),
       GetAlgorithmString = (\<lambda>op. ''Algorithm''),
       result_equal = (\<lambda>a b. a = b),
       tests_test = (\<lambda>op r. Returned),
       getOpPostprocess = getOpPostprocess_default,
       callModule = (\<lambda>m op. ([], None)),
       postprocess = (\<lambda>m op r. ([], Returned)),
       dontCompare = dontCompare_default,
       compare = compare_ECC_GenerateKeyPair \<rparr>"

text \<open>A Digest executor: every module returns one byte, its own address, so the two
  modules disagree.\<close>

definition example_Digest_Executor :: "(nat list, unit, Buffer) ExecutorBase" where
  "example_Digest_Executor =
     (let ex = (example_ExecutorBase (\<lambda>data m. Return \<lparr> modifier = m \<rparr>))
            \<lparr> callModule := (\<lambda>m op. ([ModuleOp m op], Some [of_nat m])),
              postprocess := postprocess_Digest \<rparr>
      in ex\<lparr>compare := compare_default ex\<rparr>)"

text \<open>The constructor of a BignumCalc that reads nothing: 1 + 2 modulo 7.\<close>

definition example_BignumCalc_from :: "Buffer \<Rightarrow> Buffer \<Rightarrow> BignumCalc throwing" where
  "example_BignumCalc_from data m =
     Return \<lparr> modifier = m, calcOp = CalcOp_Other 0, bn0 = ''1'', bn1 = ''2'', bn2 = [], bn3 = [],
              modulo = Some ''7'' \<rparr>"




text \<open>A SymmetricEncrypt executor with the options \<open>opts\<close>: the constructor reads nothing,
  and every module returns a ciphertext without a tag. The module at address 0 (OpenSSL)
  can decrypt what it returns; the other module (Botan) cannot, so its \<^verbatim>\<open>postprocess\<close>
  aborts.\<close>

definition example_SymmetricEncrypt_Executor ::
  "Options \<Rightarrow> (nat list, unit SymmetricEncrypt_ext, Ciphertext) ExecutorBase"
where
  "example_SymmetricEncrypt_Executor opts =
     (let ex = (example_ExecutorBase (\<lambda>data m. Return (example_SymmetricEncrypt\<lparr>modifier := m\<rparr>)))
            \<lparr> options := opts,
              callModule :=
                (\<lambda>m op. ([ModuleOp m op], Some \<lparr> ciphertext = [0, if m = 0 then 5 else 6], tag = None \<rparr>)),
              postprocess :=
                postprocess_SymmetricEncrypt opts example_Environment
                  (\<lambda>op. ''SymmetricEncrypt'') (\<lambda>op. ''AES_256_GCM''),
              dontCompare := dontCompare_SymmetricEncrypt \<rparr>
      in ex\<lparr>compare := compare_default ex\<rparr>)"

text \<open>The environment in which Botan does not support modular bignum calculations, and
  the BignumCalc executor with the options \<open>opts\<close> in the environment \<open>env\<close>.\<close>

definition example_Environment_plain_Botan :: Environment where
  "example_Environment_plain_Botan =
     example_Environment
       \<lparr> heap := (\<lambda>p. if p = 0 then example_Module 1 ''OpenSSL''
                      else (example_Module 2 ''Botan'')\<lparr>SupportsModularBignumCalc := False\<rparr>) \<rparr>"

definition example_BignumCalc_Executor ::
  "Options \<Rightarrow> Environment \<Rightarrow> (nat list, unit BignumCalc_ext, Bignum) ExecutorBase"
where
  "example_BignumCalc_Executor opts env =
     ExecutorBignumCalc
       ((example_ExecutorBase example_BignumCalc_from)\<lparr>options := opts, environment := env\<rparr>)"

section \<open>Theorems\<close>

subsection \<open>callModule of BignumCalc\<close>

text \<open>
  Claim C5. BignumCalc's \<^verbatim>\<open>callModule\<close> returns \<^verbatim>\<open>nullopt\<close> without invoking the module
  whenever the calc-op is not enabled, one of bn0..bn3 is longer than kMaxBignumSize,
  a modulo is present and the module lacks SupportsModularBignumCalc, or a per-op cap is
  violated (SetBit: |bn1| > 4; Exp: |bn0| > 5 or |bn1| > 2; ModLShift: |bn1| > 4; Exp2:
  |bn0| > 4). In every other case it invokes the module's OpBignumCalc on the operation,
  once, and returns what the module returned.
\<close>

theorem C5_callModule_BignumCalc:
  "callModule_BignumCalc opts env m op =
     (if BignumCalc_gated opts env m op then ([], None)
      else ([ModuleOp m op], OpBignumCalc (heap env m) op))"
  unfolding callModule_BignumCalc_def BignumCalc_gated_def
  by (cases "calcOp op") auto

theorem C5_callModule_BignumCalc_witness:
  "callModule_BignumCalc example_Options example_Environment 0 example_BignumCalc = ([], None)
   \<and> callModule_BignumCalc example_Options example_Environment 0 (example_BignumCalc\<lparr>bn0 := ''12345''\<rparr>)
       = ([ModuleOp 0 (example_BignumCalc\<lparr>bn0 := ''12345''\<rparr>)], Some ''12345'')"
  using C5_callModule_BignumCalc [of example_Options example_Environment 0 example_BignumCalc]
    C5_callModule_BignumCalc [of example_Options example_Environment 0 "example_BignumCalc\<lparr>bn0 := ''12345''\<rparr>"]
  by (simp add: BignumCalc_gated_def example_Options_def example_Environment_def
      example_BignumCalc_def example_Module_def)

subsection \<open>dontCompare and the empty compare\<close>

text \<open>
  Claim C8. \<^verbatim>\<open>compare\<close> does nothing for ECC_GenerateKeyPair and DH_GenerateKeyPair,
  whatever the results. \<^verbatim>\<open>dontCompare\<close> is true for BignumCalc exactly when the calc-op is
  Rand(); for ECDSA_Sign exactly when the nonce is random and the curve is neither ed25519
  nor ed448; for SymmetricEncrypt, SymmetricDecrypt, CMAC and HMAC exactly when the cipher
  is DES_EDE3_WRAP.
\<close>

theorem C8_dontCompare:
  "compare_ECC_GenerateKeyPair operations results data = ([], Returned)
   \<and> compare_DH_GenerateKeyPair operations' results' data' = ([], Returned)
   \<and> dontCompare_BignumCalc b = (calcOp b = Rand)
   \<and> dontCompare_ECDSA_Sign s = (UseRandomNonce s \<and> curveType s \<noteq> ed25519 \<and> curveType s \<noteq> ed448)
   \<and> dontCompare_SymmetricEncrypt e = (cipherType (cipher e) = DES_EDE3_WRAP)
   \<and> dontCompare_SymmetricDecrypt d = (cipherType (decrypt_cipher d) = DES_EDE3_WRAP)
   \<and> dontCompare_CMAC c = (cipherType (cmac_cipher c) = DES_EDE3_WRAP)
   \<and> dontCompare_HMAC h = (cipherType (hmac_cipher h) = DES_EDE3_WRAP)"
  by (simp add: compare_ECC_GenerateKeyPair_def compare_DH_GenerateKeyPair_def
      dontCompare_BignumCalc_def dontCompare_ECDSA_Sign_def dontCompare_SymmetricEncrypt_def
      dontCompare_SymmetricDecrypt_def dontCompare_CMAC_def dontCompare_HMAC_def)

subsection \<open>postprocess of SymmetricEncrypt\<close>

lemma tryDecrypt_iff:
  "(tryDecrypt env m op = False) =
     (ID (heap env m) = CF_MODULE_OpenSSL env
      \<and> (cipherType (cipher op) \<in> {AES_128_OCB, AES_256_OCB}
         \<or> cipherType (cipher op) \<in>
              {AES_128_GCM, AES_192_GCM, AES_256_GCM, AES_128_CCM, AES_192_CCM, AES_256_CCM,
               ARIA_128_CCM, ARIA_192_CCM, ARIA_256_CCM, ARIA_128_GCM, ARIA_192_GCM, ARIA_256_GCM}
           \<and> tagSize op = None))"
  unfolding tryDecrypt_def by (cases "cipherType (cipher op)") simp_all

lemma size_plus_32:
  "n + 32 < 2 ^ 64 \<Longrightarrow> unat (of_nat n + 32 :: uint64_t) = n + 32"
proof -
  assume a: "n + 32 < 2 ^ 64"
  have "(of_nat n + 32 :: uint64_t) = of_nat (n + 32)" by simp
  then have "unat (of_nat n + 32 :: uint64_t) = (n + 32) mod 2 ^ 64"
    by (simp only: unat_of_nat) simp
  with a show ?thesis by simp
qed

text \<open>
  Claim C3. In \<^verbatim>\<open>postprocess\<close> of SymmetricEncrypt, with \<^verbatim>\<open>noDecrypt\<close> false, a non-empty
  cleartext and a result with a non-empty ciphertext: \<^verbatim>\<open>tryDecrypt\<close> is false exactly when
  the module is OpenSSL and the cipher is AES_128_OCB or AES_256_OCB, or the module is
  OpenSSL, the cipher is one of the twelve AES/ARIA GCM and CCM ciphers and the operation
  has no tagSize. Otherwise the same module's OpSymmetricDecrypt is invoked on an
  operation with output size |cleartext| + 32, the original AAD, an empty modifier and
  the ciphertext, tag and cipher at hand; and \<^verbatim>\<open>abort\<close> is called, with the reason
  "cannot decrypt ciphertext", exactly when that call returns nothing or bytes other than
  the cleartext.
\<close>

theorem C3_self_decrypt:
  assumes "noDecrypt opts = False" and "cleartext op \<noteq> []" and "ciphertext c \<noteq> []"
    and "length (cleartext op) + 32 < 2 ^ 64"
  shows
    "(tryDecrypt env m op = False) =
       (ID (heap env m) = CF_MODULE_OpenSSL env
        \<and> (cipherType (cipher op) \<in> {AES_128_OCB, AES_256_OCB}
           \<or> cipherType (cipher op) \<in>
                {AES_128_GCM, AES_192_GCM, AES_256_GCM, AES_128_CCM, AES_192_CCM, AES_256_CCM,
                 ARIA_128_CCM, ARIA_192_CCM, ARIA_256_CCM, ARIA_128_GCM, ARIA_192_GCM, ARIA_256_GCM}
             \<and> tagSize op = None))
     \<and> (let opDecrypt = SymmetricDecrypt_from op c (of_nat (length (cleartext op)) + 32) (aad op) [];
             decrypted = OpSymmetricDecrypt (heap env m) opDecrypt;
             failed = (decrypted = None \<or> (\<exists>bytes. decrypted = Some bytes \<and> bytes \<noteq> cleartext op))
         in unat (cleartextSize opDecrypt) = length (cleartext op) + 32
            \<and> decrypt_aad opDecrypt = aad op
            \<and> modifier opDecrypt = []
            \<and> decrypt_ciphertext opDecrypt = ciphertext c
            \<and> decrypt_tag opDecrypt = tag c
            \<and> decrypt_cipher opDecrypt = cipher op
            \<and> postprocess_SymmetricEncrypt opts env op_Name op_GetAlgorithmString m op (m', Some c) =
                (if tryDecrypt env m op = False then (probe_Ciphertext (Some c), Returned)
                 else if failed then
                   (probe_Ciphertext (Some c) @ [ModuleOpSymmetricDecrypt m opDecrypt, PrintOperation op],
                    Aborted (abort [name (heap env m)] (op_Name op) (op_GetAlgorithmString op)
                               ''cannot decrypt ciphertext''))
                 else (probe_Ciphertext (Some c) @ [ModuleOpSymmetricDecrypt m opDecrypt], Returned)))"
proof -
  let ?opDecrypt = "SymmetricDecrypt_from op c (of_nat (length (cleartext op)) + 32) (aad op) []"
  have size: "unat (cleartextSize ?opDecrypt) = length (cleartext op) + 32"
    using assms(4) by (simp add: SymmetricDecrypt_from_def size_plus_32)
  have fields: "decrypt_aad ?opDecrypt = aad op \<and> modifier ?opDecrypt = []
      \<and> decrypt_ciphertext ?opDecrypt = ciphertext c \<and> decrypt_tag ?opDecrypt = tag c
      \<and> decrypt_cipher ?opDecrypt = cipher op"
    by (simp add: SymmetricDecrypt_from_def)
  have post: "postprocess_SymmetricEncrypt opts env op_Name op_GetAlgorithmString m op (m', Some c) =
      (if tryDecrypt env m op = False then (probe_Ciphertext (Some c), Returned)
       else if OpSymmetricDecrypt (heap env m) ?opDecrypt = None
               \<or> (\<exists>bytes. OpSymmetricDecrypt (heap env m) ?opDecrypt = Some bytes \<and> bytes \<noteq> cleartext op) then
         (probe_Ciphertext (Some c) @ [ModuleOpSymmetricDecrypt m ?opDecrypt, PrintOperation op],
          Aborted (abort [name (heap env m)] (op_Name op) (op_GetAlgorithmString op)
                     ''cannot decrypt ciphertext''))
       else (probe_Ciphertext (Some c) @ [ModuleOpSymmetricDecrypt m ?opDecrypt], Returned))"
    using assms(1-3)
    by (cases "OpSymmetricDecrypt (heap env m) ?opDecrypt")
       (simp_all add: postprocess_SymmetricEncrypt_def Let_def)
  show ?thesis
    unfolding Let_def using tryDecrypt_iff [of env m op] size fields post by blast
qed

theorem C3_self_decrypt_witness:
  "tryDecrypt example_Environment 0 example_SymmetricEncrypt = True
   \<and> postprocess_SymmetricEncrypt example_Options example_Environment
        (\<lambda>op. ''SymmetricEncrypt'') (\<lambda>op. ''AES_256_GCM'') 0 example_SymmetricEncrypt
        (0, Some example_Ciphertext)
       = ([memory_test_msan [0, 5], memory_test_msan [9],
           ModuleOpSymmetricDecrypt 0
             \<lparr> modifier = [], decrypt_ciphertext = [0, 5],
               decrypt_cipher = \<lparr> cipherType = AES_256_GCM \<rparr>, decrypt_tag = Some [9],
               decrypt_aad = Some [3], cleartextSize = 33 \<rparr>], Returned)
   \<and> postprocess_SymmetricEncrypt example_Options example_Environment
        (\<lambda>op. ''SymmetricEncrypt'') (\<lambda>op. ''AES_256_GCM'') 0 example_SymmetricEncrypt
        (0, Some \<lparr> ciphertext = [0, 6], tag = None \<rparr>)
       = ([memory_test_msan [0, 6],
           ModuleOpSymmetricDecrypt 0
             \<lparr> modifier = [], decrypt_ciphertext = [0, 6],
               decrypt_cipher = \<lparr> cipherType = AES_256_GCM \<rparr>, decrypt_tag = None,
               decrypt_aad = Some [3], cleartextSize = 33 \<rparr>,
           PrintOperation example_SymmetricEncrypt],
          Aborted \<lparr> failure_moduleNames = [''OpenSSL''], failure_operation = ''SymmetricEncrypt'',
                    failure_algorithm = ''AES_256_GCM'',
                    failure_reason = ''cannot decrypt ciphertext'' \<rparr>)
   \<and> postprocess_SymmetricEncrypt example_Options example_Environment
        (\<lambda>op. ''SymmetricEncrypt'') (\<lambda>op. ''AES_128_OCB'') 0
        (example_SymmetricEncrypt\<lparr>cipher := \<lparr> cipherType = AES_128_OCB \<rparr>\<rparr>)
        (0, Some example_Ciphertext)
       = ([memory_test_msan [0, 5], memory_test_msan [9]], Returned)"
  using
    C3_self_decrypt [where opts = example_Options and env = example_Environment and m = 0
      and op = example_SymmetricEncrypt and c = example_Ciphertext and m' = 0
      and op_Name = "\<lambda>op. ''SymmetricEncrypt''" and op_GetAlgorithmString = "\<lambda>op. ''AES_256_GCM''"]
    C3_self_decrypt [where opts = example_Options and env = example_Environment and m = 0
      and op = example_SymmetricEncrypt and c = "\<lparr> ciphertext = [0, 6], tag = None \<rparr>" and m' = 0
      and op_Name = "\<lambda>op. ''SymmetricEncrypt''" and op_GetAlgorithmString = "\<lambda>op. ''AES_256_GCM''"]
    C3_self_decrypt [where opts = example_Options and env = example_Environment and m = 0
      and op = "example_SymmetricEncrypt\<lparr>cipher := \<lparr> cipherType = AES_128_OCB \<rparr>\<rparr>"
      and c = example_Ciphertext and m' = 0
      and op_Name = "\<lambda>op. ''SymmetricEncrypt''" and op_GetAlgorithmString = "\<lambda>op. ''AES_128_OCB''"]
  by (simp add: example_Options_def example_Environment_def example_SymmetricEncrypt_def
      example_Ciphertext_def example_Module_def SymmetricDecrypt_from_def probe_Ciphertext_def
      abort_def Let_def)

subsection \<open>The sanitizer probe in postprocess\<close>

text \<open>
  Claim C2, amended. For Digest, HMAC, CMAC, SymmetricDecrypt and the eleven KDF
  families, \<^verbatim>\<open>postprocess\<close> given a present result runs the sanitizer probe over the bytes
  of the result, and does nothing else, whatever the options. For SymmetricEncrypt with
  \<^verbatim>\<open>noDecrypt\<close> false it first runs the probe over the ciphertext and then, when there is a
  tag, over the tag. For ECIES_Encrypt, whose result is a ciphertext too, for
  ECIES_Decrypt, ECDH_Derive and Misc, whose results are byte strings, and for DH_Derive,
  whose result is a bignum, \<^verbatim>\<open>postprocess\<close> does nothing at all. For BignumCalc, and for
  BLS_Compress_G1, \<^verbatim>\<open>postprocess\<close> runs no probe: given a present result, it offers the
  trimmed result to the bignum pool when that is no longer than \<^verbatim>\<open>kMaxBignumSize\<close>, and
  does nothing else.
\<close>

theorem C2_probe_on_present_result:
  "postprocess_Digest m op (m', Some r) = ([memory_test_msan r], Returned)
   \<and> postprocess_HMAC m op (m', Some r) = ([memory_test_msan r], Returned)
   \<and> postprocess_CMAC m op (m', Some r) = ([memory_test_msan r], Returned)
   \<and> postprocess_SymmetricDecrypt m op (m', Some r) = ([memory_test_msan r], Returned)
   \<and> postprocess_KDF_SCRYPT m op (m', Some r) = ([memory_test_msan r], Returned)
   \<and> postprocess_KDF_HKDF m op (m', Some r) = ([memory_test_msan r], Returned)
   \<and> postprocess_KDF_PBKDF m op (m', Some r) = ([memory_test_msan r], Returned)
   \<and> postprocess_KDF_PBKDF1 m op (m', Some r) = ([memory_test_msan r], Returned)
   \<and> postprocess_KDF_PBKDF2 m op (m', Some r) = ([memory_test_msan r], Returned)
   \<and> postprocess_KDF_ARGON2 m op (m', Some r) = ([memory_test_msan r], Returned)
   \<and> postprocess_KDF_SSH m op (m', Some r) = ([memory_test_msan r], Returned)
   \<and> postprocess_KDF_TLS1_PRF m op (m', Some r) = ([memory_test_msan r], Returned)
   \<and> postprocess_KDF_X963 m op (m', Some r) = ([memory_test_msan r], Returned)
   \<and> postprocess_KDF_BCRYPT m op (m', Some r) = ([memory_test_msan r], Returned)
   \<and> postprocess_KDF_SP_800_108 m op (m', Some r) = ([memory_test_msan r], Returned)
   \<and> (noDecrypt opts = False \<longrightarrow>
        (\<exists>more. fst (postprocess_SymmetricEncrypt opts env op_Name op_GetAlgorithmString m e (m', Some c))
           = memory_test_msan (ciphertext c)
               # (case tag c of None \<Rightarrow> [] | Some t \<Rightarrow> [memory_test_msan t]) @ more))
   \<and> postprocess_ECIES_Encrypt m op (m', Some c) = ([], Returned)
   \<and> postprocess_ECIES_Decrypt m op (m', Some r) = ([], Returned)
   \<and> postprocess_ECDH_Derive m op (m', Some r) = ([], Returned)
   \<and> postprocess_Misc m op (m', Some r) = ([], Returned)
   \<and> postprocess_DH_Derive m op (m', Some s) = ([], Returned)
   \<and> postprocess_BignumCalc env m b (m', Some s)
       = (if length (ToTrimmedString env s) \<le> kMaxBignumSize env
          then [Pool_Bignum_Set (ToTrimmedString env s)] else [], Returned)
   \<and> postprocess_BLS_Compress_G1 env m op (m', Some s)
       = (if length (ToTrimmedString env s) \<le> kMaxBignumSize env
          then [Pool_Bignum_Set (ToTrimmedString env s)] else [], Returned)
   \<and> (\<forall>bytes. memory_test_msan bytes \<notin> set (fst (postprocess_BignumCalc env m b (m', rb))))"
proof -
  have enc: "noDecrypt opts = False \<longrightarrow>
        (\<exists>more. fst (postprocess_SymmetricEncrypt opts env op_Name op_GetAlgorithmString m e (m', Some c))
           = memory_test_msan (ciphertext c)
               # (case tag c of None \<Rightarrow> [] | Some t \<Rightarrow> [memory_test_msan t]) @ more)"
    by (simp add: postprocess_SymmetricEncrypt_def probe_Ciphertext_def Let_def)
  have pool: "postprocess_BignumCalc env m b (m', Some s)
       = (if length (ToTrimmedString env s) \<le> kMaxBignumSize env
          then [Pool_Bignum_Set (ToTrimmedString env s)] else [], Returned)
      \<and> postprocess_BLS_Compress_G1 env m op (m', Some s)
       = (if length (ToTrimmedString env s) \<le> kMaxBignumSize env
          then [Pool_Bignum_Set (ToTrimmedString env s)] else [], Returned)"
    by (simp add: postprocess_BignumCalc_def postprocess_BLS_Compress_G1_def Let_def)
  have bn: "\<forall>bytes. memory_test_msan bytes \<notin> set (fst (postprocess_BignumCalc env m b (m', rb)))"
    by (simp add: postprocess_BignumCalc_def Let_def)
  have empty: "postprocess_ECIES_Encrypt m op (m', Some c) = ([], Returned)
      \<and> postprocess_ECIES_Decrypt m op (m', Some r) = ([], Returned)
      \<and> postprocess_ECDH_Derive m op (m', Some r) = ([], Returned)
      \<and> postprocess_Misc m op (m', Some r) = ([], Returned)
      \<and> postprocess_DH_Derive m op (m', Some s) = ([], Returned)"
    by (simp add: postprocess_ECIES_Encrypt_def postprocess_ECIES_Decrypt_def
        postprocess_ECDH_Derive_def postprocess_Misc_def postprocess_DH_Derive_def)
  have probes: "postprocess_Digest m op (m', Some r) = ([memory_test_msan r], Returned)
   \<and> postprocess_HMAC m op (m', Some r) = ([memory_test_msan r], Returned)
   \<and> postprocess_CMAC m op (m', Some r) = ([memory_test_msan r], Returned)
   \<and> postprocess_SymmetricDecrypt m op (m', Some r) = ([memory_test_msan r], Returned)
   \<and> postprocess_KDF_SCRYPT m op (m', Some r) = ([memory_test_msan r], Returned)
   \<and> postprocess_KDF_HKDF m op (m', Some r) = ([memory_test_msan r], Returned)
   \<and> postprocess_KDF_PBKDF m op (m', Some r) = ([memory_test_msan r], Returned)
   \<and> postprocess_KDF_PBKDF1 m op (m', Some r) = ([memory_test_msan r], Returned)
   \<and> postprocess_KDF_PBKDF2 m op (m', Some r) = ([memory_test_msan r], Returned)
   \<and> postprocess_KDF_ARGON2 m op (m', Some r) = ([memory_test_msan r], Returned)
   \<and> postprocess_KDF_SSH m op (m', Some r) = ([memory_test_msan r], Returned)
   \<and> postprocess_KDF_TLS1_PRF m op (m', Some r) = ([memory_test_msan r], Returned)
   \<and> postprocess_KDF_X963 m op (m', Some r) = ([memory_test_msan r], Returned)
   \<and> postprocess_KDF_BCRYPT m op (m', Some r) = ([memory_test_msan r], Returned)
   \<and> postprocess_KDF_SP_800_108 m op (m', Some r) = ([memory_test_msan r], Returned)"
    by (simp add: postprocess_Digest_def postprocess_HMAC_def postprocess_CMAC_def
        postprocess_SymmetricDecrypt_def postprocess_KDF_SCRYPT_def postprocess_KDF_HKDF_def
        postprocess_KDF_PBKDF_def postprocess_KDF_PBKDF1_def postprocess_KDF_PBKDF2_def
        postprocess_KDF_ARGON2_def postprocess_KDF_SSH_def postprocess_KDF_TLS1_PRF_def
        postprocess_KDF_X963_def postprocess_KDF_BCRYPT_def postprocess_KDF_SP_800_108_def)
  show ?thesis
    using probes enc empty pool bn by blast
qed

theorem C2_probe_on_present_result_witness:
  "postprocess_Digest 0 example_SymmetricEncrypt (0, Some [1, 2]) = ([memory_test_msan [1, 2]], Returned)
   \<and> fst (postprocess_SymmetricEncrypt example_Options example_Environment
        (\<lambda>op. ''SymmetricEncrypt'') (\<lambda>op. ''AES_256_GCM'') 0 example_SymmetricEncrypt
        (0, Some example_Ciphertext))
       = [memory_test_msan [0, 5], memory_test_msan [9],
           ModuleOpSymmetricDecrypt 0
             \<lparr> modifier = [], decrypt_ciphertext = [0, 5],
               decrypt_cipher = \<lparr> cipherType = AES_256_GCM \<rparr>, decrypt_tag = Some [9],
               decrypt_aad = Some [3], cleartextSize = 33 \<rparr>]
   \<and> postprocess_BignumCalc example_Environment 0 example_BignumCalc (0, Some ''1234'')
       = ([Pool_Bignum_Set ''1234''], Returned)
   \<and> postprocess_BignumCalc (example_Environment\<lparr>kMaxBignumSize := 3\<rparr>) 0 example_BignumCalc
        (0, Some ''1234'')
       = ([], Returned)"
  using C2_probe_on_present_result [where opts = example_Options and env = example_Environment
      and m = 0 and m' = 0 and op = example_SymmetricEncrypt and e = example_SymmetricEncrypt
      and c = example_Ciphertext and r = "[1, 2]" and b = example_BignumCalc and rb = None
      and s = "''1234''"
      and op_Name = "\<lambda>op. ''SymmetricEncrypt''" and op_GetAlgorithmString = "\<lambda>op. ''AES_256_GCM''"]
    C2_probe_on_present_result [where opts = example_Options
      and env = "example_Environment\<lparr>kMaxBignumSize := 3\<rparr>"
      and m = 0 and m' = 0 and op = example_SymmetricEncrypt and e = example_SymmetricEncrypt
      and c = example_Ciphertext and r = "[1, 2]" and b = example_BignumCalc and rb = None
      and s = "''1234''"
      and op_Name = "\<lambda>op. ''SymmetricEncrypt''" and op_GetAlgorithmString = "\<lambda>op. ''AES_256_GCM''"]
  by (simp add: example_Options_def example_Environment_def example_SymmetricEncrypt_def
      example_Ciphertext_def example_Module_def SymmetricDecrypt_from_def probe_Ciphertext_def
      postprocess_SymmetricEncrypt_def tryDecrypt_def Let_def)

text \<open>The claim as stated fails in each of these calls, where \<^verbatim>\<open>postprocess\<close> is given a
  present result and runs no probe: with \<^verbatim>\<open>noDecrypt\<close> set, \<^verbatim>\<open>postprocess\<close> of SymmetricEncrypt
  returns before the probe; \<^verbatim>\<open>postprocess\<close> of BignumCalc and of BLS_Compress_G1 only writes
  to the pool; and \<^verbatim>\<open>postprocess\<close> of ECIES_Encrypt, ECIES_Decrypt, ECDH_Derive, Misc and
  DH_Derive, which do not use the operation, is empty.\<close>

theorem C2_counterexample:
  "postprocess_SymmetricEncrypt (example_Options\<lparr>noDecrypt := True\<rparr>) example_Environment
      (\<lambda>op. ''SymmetricEncrypt'') (\<lambda>op. ''AES_256_GCM'') 0 example_SymmetricEncrypt
      (0, Some example_Ciphertext) = ([], Returned)
   \<and> postprocess_BignumCalc example_Environment 0 example_BignumCalc (0, Some ''42'')
       = ([Pool_Bignum_Set ''42''], Returned)
   \<and> postprocess_ECIES_Encrypt 0 \<lparr> modifier = [] \<rparr> (0, Some example_Ciphertext) = ([], Returned)
   \<and> postprocess_ECIES_Decrypt 0 \<lparr> modifier = [] \<rparr> (0, Some [1, 2]) = ([], Returned)
   \<and> postprocess_ECDH_Derive 0 \<lparr> modifier = [] \<rparr> (0, Some [1, 2]) = ([], Returned)
   \<and> postprocess_Misc 0 \<lparr> modifier = [] \<rparr> (0, Some [1, 2]) = ([], Returned)
   \<and> postprocess_DH_Derive 0 \<lparr> modifier = [] \<rparr> (0, Some ''42'') = ([], Returned)
   \<and> postprocess_BLS_Compress_G1 example_Environment 0 \<lparr> modifier = [] \<rparr> (0, Some ''42'')
       = ([Pool_Bignum_Set ''42''], Returned)"
  by (simp add: postprocess_SymmetricEncrypt_def postprocess_BignumCalc_def example_Options_def
      example_Environment_def postprocess_ECIES_Encrypt_def postprocess_ECIES_Decrypt_def
      postprocess_ECDH_Derive_def postprocess_Misc_def postprocess_DH_Derive_def
      postprocess_BLS_Compress_G1_def Let_def)

subsection \<open>The default compare\<close>

lemma filter_ResultSet_eq: "filter_ResultSet results = filter (\<lambda>r. snd r \<noteq> None) results"
  by (induction results) auto

lemma compare_loop_all_equal:
  "(\<forall>j. i \<le> j \<and> j < length filtered \<longrightarrow>
        result_equal ex (the (snd (filtered ! (j - 1)))) (the (snd (filtered ! j))))
   \<Longrightarrow> compare_loop ex data filtered i = ([], Returned)"
proof (induction ex data filtered i rule: compare_loop.induct)
  case (1 ex data filtered i)
  show ?case
  proof (cases "i < length filtered")
    case True
    then have eq: "result_equal ex (the (snd (filtered ! (i - 1)))) (the (snd (filtered ! i)))"
      using "1.prems" by simp
    have "compare_loop ex data filtered (Suc i) = ([], Returned)"
      using "1.IH" [OF True refl refl refl] eq "1.prems" by simp
    then show ?thesis
      using True eq by (subst compare_loop.simps) (simp add: Let_def)
  next
    case False
    then show ?thesis by (subst compare_loop.simps) simp
  qed
qed

lemma compare_loop_first_difference:
  "i \<le> k \<Longrightarrow> k < length filtered \<Longrightarrow>
   \<not> result_equal ex (the (snd (filtered ! (k - 1)))) (the (snd (filtered ! k))) \<Longrightarrow>
   (\<forall>j. i \<le> j \<and> j < k \<longrightarrow>
        result_equal ex (the (snd (filtered ! (j - 1)))) (the (snd (filtered ! j)))) \<Longrightarrow>
   compare_loop ex data filtered i =
     (case getOp ex None data of
        Throw \<Rightarrow> ([], Exception)
      | Return (op, ds) \<Rightarrow>
          ([PrintOperation op,
            PrintModuleResult (fst (filtered ! (k - 1))) (snd (filtered ! (k - 1))),
            PrintModuleResult (fst (filtered ! k)) (snd (filtered ! k))],
           Aborted
             (abort
                [name (heap (environment ex) (fst (filtered ! (k - 1)))),
                 name (heap (environment ex) (fst (filtered ! k)))]
                (Name ex op) (GetAlgorithmString ex op) ''difference'')))"
proof (induction ex data filtered i rule: compare_loop.induct)
  case (1 ex data filtered i)
  have lt: "i < length filtered" using "1.prems" by simp
  show ?case
  proof (cases "i = k")
    case True
    then show ?thesis
      using lt "1.prems"(3)
      by (subst compare_loop.simps) (simp add: Let_def split: throwing.splits prod.splits)
  next
    case False
    then have less: "i < k" using "1.prems"(1) by simp
    then have eq: "result_equal ex (the (snd (filtered ! (i - 1)))) (the (snd (filtered ! i)))"
      using "1.prems"(4) by simp
    have rest: "\<forall>j. Suc i \<le> j \<and> j < k \<longrightarrow>
        result_equal ex (the (snd (filtered ! (j - 1)))) (the (snd (filtered ! j)))"
      using "1.prems"(4) by simp
    have "compare_loop ex data filtered (Suc i) = compare_loop ex data filtered i"
      using lt eq by (subst (2) compare_loop.simps) (simp add: Let_def)
    moreover have "Suc i \<le> k" using less by simp
    ultimately show ?thesis
      using "1.IH" [OF lt refl refl refl _ _ "1.prems"(2) "1.prems"(3) rest] eq by simp
  qed
qed

lemma getOp_nullptr:
  "getOp ex None data =
     (case OperationType ex data [] of Throw \<Rightarrow> Throw | Return op \<Rightarrow> Return (op, None))"
  by (simp add: getOp_def)

lemma compare_loop_events:
  "e \<in> set (fst (compare_loop ex data filtered i)) \<Longrightarrow>
   (\<exists>op. e = PrintOperation op \<and> OperationType ex data [] = Return op) \<or> (\<exists>m r. e = PrintModuleResult m r)"
proof (induction ex data filtered i rule: compare_loop.induct)
  case (1 ex data filtered i)
  then show ?case
    by (subst (asm) (2) compare_loop.simps)
       (auto simp: Let_def getOp_nullptr split: if_splits throwing.splits prod.splits)
qed

lemma compare_default_events:
  "e \<in> set (fst (compare_default ex operations results data)) \<Longrightarrow>
   (\<exists>op. e = PrintOperation op \<and> OperationType ex data [] = Return op) \<or> (\<exists>m r. e = PrintModuleResult m r)"
  by (auto simp: compare_default_def Let_def split: if_splits dest: compare_loop_events)




text \<open>
  Claim C4. The default \<^verbatim>\<open>compare\<close> works on the present results only, in their order.
  It returns without aborting when fewer than two results are present, and when
  \<^verbatim>\<open>dontCompare\<close> holds of the first task's operation. Otherwise it returns when every
  adjacent pair of present results is equal, and at the first pair that is not, the pair
  at \<open>k - 1\<close> and \<open>k\<close>, it calls \<^verbatim>\<open>abort\<close> with the two module names, sorted, the name
  and algorithm of the operation rebuilt from the buffer, and the reason "difference".
\<close>

theorem C4_default_compare:
  "(let filtered = filter_ResultSet results;
        equal_at = (\<lambda>j. result_equal ex (the (snd (filtered ! (j - 1)))) (the (snd (filtered ! j))))
    in filtered = filter (\<lambda>r. snd r \<noteq> None) results
       \<and> (\<forall>r \<in> set filtered. snd r \<noteq> None)
       \<and> (length filtered < 2 \<longrightarrow> compare_default ex operations results data = ([], Returned))
       \<and> (dontCompare ex (snd (operations ! 0)) \<longrightarrow>
            compare_default ex operations results data = ([], Returned))
       \<and> (2 \<le> length filtered \<and> \<not> dontCompare ex (snd (operations ! 0)) \<longrightarrow>
            ((\<forall>j. 1 \<le> j \<and> j < length filtered \<longrightarrow> equal_at j) \<longrightarrow>
               compare_default ex operations results data = ([], Returned))
            \<and> (1 \<le> k \<and> k < length filtered \<and> \<not> equal_at k
                 \<and> (\<forall>j. 1 \<le> j \<and> j < k \<longrightarrow> equal_at j)
                 \<and> OperationType ex data [] = Return op \<longrightarrow>
               compare_default ex operations results data =
                 ([PrintOperation op,
                   PrintModuleResult (fst (filtered ! (k - 1))) (snd (filtered ! (k - 1))),
                   PrintModuleResult (fst (filtered ! k)) (snd (filtered ! k))],
                  Aborted
                    \<lparr> failure_moduleNames =
                        sort [name (heap (environment ex) (fst (filtered ! (k - 1)))),
                              name (heap (environment ex) (fst (filtered ! k)))],
                      failure_operation = Name ex op,
                      failure_algorithm = GetAlgorithmString ex op,
                      failure_reason = ''difference'' \<rparr>))))"
proof -
  let ?filtered = "filter_ResultSet results"
  let ?equal_at = "\<lambda>j. result_equal ex (the (snd (?filtered ! (j - 1)))) (the (snd (?filtered ! j)))"
  have flt: "?filtered = filter (\<lambda>r. snd r \<noteq> None) results"
    by (rule filter_ResultSet_eq)
  have present: "\<forall>r \<in> set ?filtered. snd r \<noteq> None"
    by (simp add: flt)
  have shorter: "length ?filtered \<le> length results"
    by (simp add: flt)
  have few: "length ?filtered < 2 \<longrightarrow> compare_default ex operations results data = ([], Returned)"
    by (simp add: compare_default_def Let_def)
  have dont: "dontCompare ex (snd (operations ! 0)) \<longrightarrow>
            compare_default ex operations results data = ([], Returned)"
    by (simp add: compare_default_def Let_def)
  have loop: "2 \<le> length ?filtered \<and> \<not> dontCompare ex (snd (operations ! 0)) \<longrightarrow>
      compare_default ex operations results data = compare_loop ex data ?filtered 1"
    using shorter by (simp add: compare_default_def Let_def)
  have same: "2 \<le> length ?filtered \<and> \<not> dontCompare ex (snd (operations ! 0)) \<longrightarrow>
      (\<forall>j. 1 \<le> j \<and> j < length ?filtered \<longrightarrow> ?equal_at j) \<longrightarrow>
      compare_default ex operations results data = ([], Returned)"
    using loop compare_loop_all_equal [of 1 ?filtered ex data] by simp
  have differ: "2 \<le> length ?filtered \<and> \<not> dontCompare ex (snd (operations ! 0)) \<longrightarrow>
      1 \<le> k \<and> k < length ?filtered \<and> \<not> ?equal_at k
        \<and> (\<forall>j. 1 \<le> j \<and> j < k \<longrightarrow> ?equal_at j)
        \<and> OperationType ex data [] = Return op \<longrightarrow>
      compare_default ex operations results data =
        ([PrintOperation op,
          PrintModuleResult (fst (?filtered ! (k - 1))) (snd (?filtered ! (k - 1))),
          PrintModuleResult (fst (?filtered ! k)) (snd (?filtered ! k))],
         Aborted
           \<lparr> failure_moduleNames =
               sort [name (heap (environment ex) (fst (?filtered ! (k - 1)))),
                     name (heap (environment ex) (fst (?filtered ! k)))],
             failure_operation = Name ex op,
             failure_algorithm = GetAlgorithmString ex op,
             failure_reason = ''difference'' \<rparr>)"
  proof (intro impI)
    assume a: "2 \<le> length ?filtered \<and> \<not> dontCompare ex (snd (operations ! 0))"
      and b: "1 \<le> k \<and> k < length ?filtered \<and> \<not> ?equal_at k
        \<and> (\<forall>j. 1 \<le> j \<and> j < k \<longrightarrow> ?equal_at j)
        \<and> OperationType ex data [] = Return op"
    have "compare_default ex operations results data = compare_loop ex data ?filtered 1"
      using loop a by simp
    also have "\<dots> = (case getOp ex None data of
        Throw \<Rightarrow> ([], Exception)
      | Return (op, ds) \<Rightarrow>
          ([PrintOperation op,
            PrintModuleResult (fst (?filtered ! (k - 1))) (snd (?filtered ! (k - 1))),
            PrintModuleResult (fst (?filtered ! k)) (snd (?filtered ! k))],
           Aborted
             (abort
                [name (heap (environment ex) (fst (?filtered ! (k - 1)))),
                 name (heap (environment ex) (fst (?filtered ! k)))]
                (Name ex op) (GetAlgorithmString ex op) ''difference'')))"
      using b by (intro compare_loop_first_difference) auto
    finally show "compare_default ex operations results data =
        ([PrintOperation op,
          PrintModuleResult (fst (?filtered ! (k - 1))) (snd (?filtered ! (k - 1))),
          PrintModuleResult (fst (?filtered ! k)) (snd (?filtered ! k))],
         Aborted
           \<lparr> failure_moduleNames =
               sort [name (heap (environment ex) (fst (?filtered ! (k - 1)))),
                     name (heap (environment ex) (fst (?filtered ! k)))],
             failure_operation = Name ex op,
             failure_algorithm = GetAlgorithmString ex op,
             failure_reason = ''difference'' \<rparr>)"
      using b by (simp add: getOp_nullptr abort_def)
  qed
  show ?thesis
    unfolding Let_def using flt present few dont same differ by blast
qed

theorem C4_default_compare_witness:
  "compare_default example_Digest_Executor
      [(0, \<lparr>modifier = []\<rparr>), (1, \<lparr>modifier = []\<rparr>), (1, \<lparr>modifier = [1]\<rparr>)]
      [(0, Some [0]), (1, None), (1, Some [1])] [] =
     ([PrintOperation \<lparr>modifier = []\<rparr>, PrintModuleResult 0 (Some [0]), PrintModuleResult 1 (Some [1])],
      Aborted \<lparr> failure_moduleNames = [''Botan'', ''OpenSSL''], failure_operation = ''Operation'',
                failure_algorithm = ''Algorithm'', failure_reason = ''difference'' \<rparr>)
   \<and> compare_default example_Digest_Executor
      [(0, \<lparr>modifier = []\<rparr>), (1, \<lparr>modifier = []\<rparr>)] [(0, Some [0]), (1, None)] [] = ([], Returned)"
proof -
  have names: "sort [''OpenSSL'', ''Botan''] = [''Botan'', ''OpenSSL'']" by code_simp
  show ?thesis
    using names
      C4_default_compare [where ex = example_Digest_Executor
        and operations = "[(0, \<lparr>modifier = []\<rparr>), (1, \<lparr>modifier = []\<rparr>), (1, \<lparr>modifier = [1]\<rparr>)]"
        and results = "[(0, Some [0]), (1, None), (1, Some [1])]" and data = "[]" and k = 1
        and op = "\<lparr>modifier = []\<rparr>"]
      C4_default_compare [where ex = example_Digest_Executor
        and operations = "[(0, \<lparr>modifier = []\<rparr>), (1, \<lparr>modifier = []\<rparr>)]"
        and results = "[(0, Some [0]), (1, None)]" and data = "[]" and k = 1
        and op = "\<lparr>modifier = []\<rparr>"]
    by (simp add: Let_def example_Digest_Executor_def example_ExecutorBase_def
        example_Environment_def example_Module_def dontCompare_default_def)
qed

subsection \<open>The fan-out block of Run\<close>

lemma fold_insert_unless:
  "fold (\<lambda>m s. if P (fst m) then s else insert (fst m) s) ms A
     = A \<union> {k \<in> fst ` set ms. \<not> P k}"
  by (induction ms arbitrary: A) auto

lemma moduleIDs_eq:
  "moduleIDs ex = {k \<in> fst ` set (modules ex). \<not> disableModules_HaveExplicit (options ex) k}"
  by (simp add: moduleIDs_def fold_insert_unless)

lemma fold_insert_image:
  "fold (\<lambda>t s. insert (f t) s) ts A = A \<union> f ` set ts"
  by (induction ts arbitrary: A) auto

lemma operationModuleIDs_eq:
  "operationModuleIDs ex operations = (\<lambda>t. ID (heap (environment ex) (fst t))) ` set operations"
  by (simp add: operationModuleIDs_def fold_insert_image)

lemma set_addModuleIDs:
  "set (addModuleIDs ex operations) = moduleIDs ex - operationModuleIDs ex operations"
  by (simp add: addModuleIDs_def)

lemma strict_sorted_addModuleIDs: "sorted_wrt (<) (addModuleIDs ex operations)"
  by (simp add: addModuleIDs_def)

lemma push_back_modules_Return:
  "operations \<noteq> [] \<Longrightarrow> \<forall>k \<in> set ids. map_of (modules ex) k \<noteq> None \<Longrightarrow>
   push_back_modules ex ids operations
     = Return (operations @ map (\<lambda>k. (the (map_of (modules ex) k), snd (operations ! 0))) ids)"
proof (induction ids arbitrary: operations)
  case Nil
  then show ?case by simp
next
  case (Cons k ids)
  from Cons.prems obtain p where p: "map_of (modules ex) k = Some p" by auto
  let ?ops = "operations @ [(p, snd (operations ! 0))]"
  have first: "?ops ! 0 = operations ! 0"
    using Cons.prems(1) by (simp add: nth_append)
  have "push_back_modules ex ids ?ops
      = Return (?ops @ map (\<lambda>k. (the (map_of (modules ex) k), snd (?ops ! 0))) ids)"
    using Cons.prems by (intro Cons.IH) auto
  then show ?case using p first by simp
qed

lemma Run_fan_out_Return:
  assumes "operations \<noteq> []"
  shows "Run_fan_out ex operations
     = Return (operations @ map (\<lambda>k. (the (map_of (modules ex) k), snd (operations ! 0)))
                                (addModuleIDs ex operations))"
proof -
  have "\<forall>k \<in> set (addModuleIDs ex operations). map_of (modules ex) k \<noteq> None"
    by (auto simp: set_addModuleIDs moduleIDs_eq map_of_eq_None_iff)
  with assms show ?thesis
    unfolding Run_fan_out_def by (rule push_back_modules_Return)
qed

text \<open>
  Claim C7. After the fan-out block, which \<^verbatim>\<open>Run\<close> reaches with at least one task, the
  task list is the original one followed by one task per identifier in
  \<^const>\<open>addModuleIDs\<close>: the registered identifiers that are not disabled and belong to no
  module of the original tasks, in strictly ascending order. Each appended task pairs
  the module registered under its identifier with the operation of the first task. So
  every registered module that is not disabled is in the task list, given that the
  registry holds each module under the module's own identifier.
\<close>

theorem C7_fan_out:
  assumes "operations \<noteq> []"
    and "\<forall>k p. map_of (modules ex) k = Some p \<longrightarrow> ID (heap (environment ex) p) = k"
  shows
    "\<exists>added.
       Run_fan_out ex operations = Return (operations @ added)
       \<and> (\<forall>t \<in> set added. snd t = snd (operations ! 0))
       \<and> map (\<lambda>t. ID (heap (environment ex) (fst t))) added = addModuleIDs ex operations
       \<and> sorted_wrt (<) (addModuleIDs ex operations)
       \<and> set (addModuleIDs ex operations)
           = {k \<in> fst ` set (modules ex). \<not> disableModules_HaveExplicit (options ex) k}
             - (\<lambda>t. ID (heap (environment ex) (fst t))) ` set operations
       \<and> (\<forall>t \<in> set added. map_of (modules ex) (ID (heap (environment ex) (fst t))) = Some (fst t))
       \<and> (\<forall>k p. map_of (modules ex) k = Some p \<and> \<not> disableModules_HaveExplicit (options ex) k \<longrightarrow>
             (\<exists>t \<in> set (operations @ added). ID (heap (environment ex) (fst t)) = k))
       \<and> ((\<forall>t \<in> set operations. map_of (modules ex) (ID (heap (environment ex) (fst t))) = Some (fst t)) \<longrightarrow>
           (\<forall>k p. map_of (modules ex) k = Some p \<and> \<not> disableModules_HaveExplicit (options ex) k \<longrightarrow>
             p \<in> fst ` set (operations @ added)))"
proof -
  let ?ids = "addModuleIDs ex operations"
  let ?added = "map (\<lambda>k. (the (map_of (modules ex) k), snd (operations ! 0))) ?ids"
  let ?id = "\<lambda>t. ID (heap (environment ex) (fst t))"
  have ret: "Run_fan_out ex operations = Return (operations @ ?added)"
    using assms(1) by (rule Run_fan_out_Return)
  have snd_added: "\<forall>t \<in> set ?added. snd t = snd (operations ! 0)" by auto
  have set_ids: "set ?ids = {k \<in> fst ` set (modules ex). \<not> disableModules_HaveExplicit (options ex) k}
             - ?id ` set operations"
    by (simp add: set_addModuleIDs moduleIDs_eq operationModuleIDs_eq)
  have registered: "\<forall>k \<in> set ?ids. \<exists>p. map_of (modules ex) k = Some p"
    using set_ids by (auto dest: weak_map_of_SomeI)
  have id_of: "\<forall>k \<in> set ?ids. ID (heap (environment ex) (the (map_of (modules ex) k))) = k"
    using registered assms(2) by fastforce
  have ids: "map ?id ?added = ?ids"
    using id_of by (simp add: map_idI)
  have added_registered: "\<forall>t \<in> set ?added. map_of (modules ex) (?id t) = Some (fst t)"
    using registered id_of by fastforce
  have every: "\<forall>k p. map_of (modules ex) k = Some p \<and> \<not> disableModules_HaveExplicit (options ex) k \<longrightarrow>
             (\<exists>t \<in> set (operations @ ?added). ?id t = k)"
  proof (intro allI impI)
    fix k p
    assume kp: "map_of (modules ex) k = Some p \<and> \<not> disableModules_HaveExplicit (options ex) k"
    then have key: "k \<in> fst ` set (modules ex)"
      by (metis map_of_eq_None_iff option.distinct(1))
    show "\<exists>t \<in> set (operations @ ?added). ?id t = k"
    proof (cases "k \<in> ?id ` set operations")
      case True
      then show ?thesis by auto
    next
      case False
      with key kp have "k \<in> set ?ids" using set_ids by simp
      then have "(the (map_of (modules ex) k), snd (operations ! 0)) \<in> set ?added" by simp
      moreover have "?id (the (map_of (modules ex) k), snd (operations ! 0)) = k"
        using kp assms(2) by simp
      ultimately show ?thesis by (metis Un_iff set_append)
    qed
  qed
  have pointers: "(\<forall>t \<in> set operations. map_of (modules ex) (?id t) = Some (fst t)) \<longrightarrow>
           (\<forall>k p. map_of (modules ex) k = Some p \<and> \<not> disableModules_HaveExplicit (options ex) k \<longrightarrow>
             p \<in> fst ` set (operations @ ?added))"
  proof (intro allI impI)
    fix k p
    assume reg: "\<forall>t \<in> set operations. map_of (modules ex) (?id t) = Some (fst t)"
      and kp: "map_of (modules ex) k = Some p \<and> \<not> disableModules_HaveExplicit (options ex) k"
    from every kp obtain t where t: "t \<in> set (operations @ ?added)" "?id t = k" by blast
    then have "map_of (modules ex) (?id t) = Some (fst t)"
      using reg added_registered by (metis Un_iff set_append)
    with t kp have "fst t = p" by simp
    with t show "p \<in> fst ` set (operations @ ?added)" by blast
  qed
  show ?thesis
    using ret snd_added ids strict_sorted_addModuleIDs [of ex operations] set_ids added_registered every pointers
    by blast
qed

theorem C7_fan_out_witness:
  "(\<exists>added. Run_fan_out example_Digest_Executor [(0, \<lparr>modifier = [1]\<rparr>)]
              = Return ([(0, \<lparr>modifier = [1]\<rparr>)] @ added)
            \<and> map (\<lambda>t. ID (heap (environment example_Digest_Executor) (fst t))) added = [2])
   \<and> Run_fan_out example_Digest_Executor [(0, \<lparr>modifier = [1]\<rparr>)]
       = Return [(0, \<lparr>modifier = [1]\<rparr>), (1, \<lparr>modifier = [1]\<rparr>)]"
proof -
  have ne: "[(0::nat, \<lparr>modifier = [1::uint8_t]\<rparr>)] \<noteq> []" by simp
  have registry: "\<forall>k p. map_of (modules example_Digest_Executor) k = Some p \<longrightarrow>
      ID (heap (environment example_Digest_Executor) p) = k"
    by (simp add: example_Digest_Executor_def example_ExecutorBase_def example_Environment_def
        example_Module_def Let_def)
  have ids: "addModuleIDs example_Digest_Executor [(0, \<lparr>modifier = [1]\<rparr>)] = [2]"
    by code_simp
  have run: "Run_fan_out example_Digest_Executor [(0, \<lparr>modifier = [1]\<rparr>)]
       = Return [(0, \<lparr>modifier = [1]\<rparr>), (1, \<lparr>modifier = [1]\<rparr>)]"
    by code_simp
  from C7_fan_out [OF ne registry] ids run show ?thesis by auto
qed

subsection \<open>The execution loop of Run\<close>

text \<open>What the block \<^verbatim>\<open>if ( i > 0 )\<close> computes: the guard compares the modifier of task
  \<open>i\<close> with itself, so only the modules decide.\<close>

lemma Run_modifier_eq:
  "Run_modifier i operations =
     (if 0 < i \<and> fst (operations ! (i - 1)) = fst (operations ! i) then
        (snd (operations ! i))\<lparr>modifier := mutate_modifier (modifier (snd (operations ! i)))\<rparr>
      else snd (operations ! i))"
  by (simp add: Run_modifier_def Let_def)

text \<open>
  Claim C1 says that the modifier of task \<open>i\<close> is mutated if and only if task \<open>i - 1\<close> has
  the same module and an equal modifier. The code mutates it here although the previous
  modifier, \<open>[1]\<close>, differs from \<open>[0]\<close>; after the loop the two tasks, on the same module,
  hold the same modifier \<open>[1]\<close>.
\<close>

theorem C1_modifier_mutated_whatever_the_previous_modifier:
  "Run_modifier 1 [(0, \<lparr>modifier = [1]\<rparr>), (0, \<lparr>modifier = [0]\<rparr>)] = \<lparr>modifier = [1]\<rparr>
   \<and> fst (Run_loop example_Digest_Executor 0
             [(0, \<lparr>modifier = [1]\<rparr>), (0, \<lparr>modifier = [0]\<rparr>)] [] [])
       = [(0, \<lparr>modifier = [1]\<rparr>), (0, \<lparr>modifier = [1]\<rparr>)]"
  by code_simp

text \<open>The events of one loop body, and what the loop does to the tasks, the outcome and
  the events.\<close>

lemma Run_task_events:
  "fst (snd (Run_task ex m op)) =
     CallModule m op # fst (callModule ex m op)
       @ (if snd (callModule ex m op) \<noteq> None \<and> jsonDumpFP (options ex) \<noteq> None
          then [JsonDump op (the (snd (callModule ex m op)))] else [])
       @ (if debug (options ex) then [PrintModuleResult m (snd (callModule ex m op))] else [])
       @ (if disableTests (options ex) then [] else [TestsTest op (snd (callModule ex m op))])
       @ (if disableTests (options ex) \<or> tests_test ex op (snd (callModule ex m op)) = Returned
          then fst (postprocess ex m op (m, snd (callModule ex m op))) else [])"
  by (simp add: Run_task_def Let_def)

lemma Run_task_CallModule: "CallModule m op \<in> set (fst (snd (Run_task ex m op)))"
  by (simp add: Run_task_events)

lemma Run_loop_length: "length (fst (Run_loop ex i operations results events)) = length operations"
proof (induction ex i operations results events rule: Run_loop.induct)
  case (1 ex i operations results events)
  show ?case
  proof (cases "i < length operations")
    case True
    then show ?thesis
      using "1.IH" [OF True refl refl refl refl refl refl]
      by (subst Run_loop.simps) (simp add: Let_def)
  next
    case False
    then show ?thesis by (subst Run_loop.simps) simp
  qed
qed

lemma Run_loop_events_prefix:
  "\<exists>more. fst (snd (snd (Run_loop ex i operations results events))) = events @ more"
proof (induction ex i operations results events rule: Run_loop.induct)
  case (1 ex i operations results events)
  show ?case
  proof (cases "i < length operations")
    case True
    then show ?thesis
      using "1.IH" [OF True refl refl refl refl refl refl]
      by (subst Run_loop.simps) (auto simp: Let_def)
  next
    case False
    then show ?thesis by (subst Run_loop.simps) simp
  qed
qed

lemma Run_loop_unfold:
  "i < length operations \<Longrightarrow>
   Run_loop ex i operations results events =
     (if snd (snd (Run_task ex (fst (operations ! i)) (Run_modifier i operations))) = Returned
      then Run_loop ex (Suc i)
             (operations[i := (fst (operations ! i), Run_modifier i operations)])
             (results @ [fst (Run_task ex (fst (operations ! i)) (Run_modifier i operations))])
             (events @ fst (snd (Run_task ex (fst (operations ! i)) (Run_modifier i operations))))
      else (operations[i := (fst (operations ! i), Run_modifier i operations)],
            results @ [fst (Run_task ex (fst (operations ! i)) (Run_modifier i operations))],
            events @ fst (snd (Run_task ex (fst (operations ! i)) (Run_modifier i operations))),
            snd (snd (Run_task ex (fst (operations ! i)) (Run_modifier i operations)))))"
  by (subst Run_loop.simps) (simp add: Let_def)

lemma Run_loop_end:
  "\<not> i < length operations \<Longrightarrow>
   Run_loop ex i operations results events = (operations, results, events, Returned)"
  by (subst Run_loop.simps) simp

lemma Run_loop_outcome:
  "snd (snd (snd (Run_loop ex i operations results events)))
     = snd (snd (snd (Run_loop ex i operations results' events')))"
proof (induction "length operations - i" arbitrary: i operations results events results' events')
  case 0
  then have "\<not> i < length operations" by simp
  then show ?case by (simp add: Run_loop_end)
next
  case (Suc n)
  then have lt: "i < length operations" by simp
  let ?ran = "Run_task ex (fst (operations ! i)) (Run_modifier i operations)"
  let ?ops = "operations[i := (fst (operations ! i), Run_modifier i operations)]"
  have n: "n = length ?ops - Suc i" using Suc.hyps(2) by simp
  show ?case
  proof (cases "snd (snd ?ran) = Returned")
    case True
    have "snd (snd (snd (Run_loop ex (Suc i) ?ops (results @ [fst ?ran]) (events @ fst (snd ?ran)))))
        = snd (snd (snd (Run_loop ex (Suc i) ?ops (results' @ [fst ?ran]) (events' @ fst (snd ?ran)))))"
      using n by (rule Suc.hyps(1))
    then show ?thesis
      using lt True by (simp add: Run_loop_unfold [of i operations])
  next
    case False
    then show ?thesis
      using lt by (simp add: Run_loop_unfold [of i operations])
  qed
qed

lemma Run_modifier_update:
  "j \<noteq> i \<Longrightarrow> i < length operations \<Longrightarrow> j < length operations \<Longrightarrow>
   Run_modifier j (operations[i := (fst (operations ! i), op)]) = Run_modifier j operations"
  by (auto simp: Run_modifier_def Let_def nth_list_update)

lemma Run_loop_events_invariant:
  "\<forall>t \<in> set operations. P (snd t) \<Longrightarrow>
   (\<And>op b. P op \<Longrightarrow> P (op\<lparr>modifier := b\<rparr>)) \<Longrightarrow>
   (\<And>m op. P op \<Longrightarrow> \<forall>e \<in> set (fst (snd (Run_task ex m op))). G e) \<Longrightarrow>
   \<forall>e \<in> set events. G e \<Longrightarrow>
   \<forall>e \<in> set (fst (snd (snd (Run_loop ex i operations results events)))). G e"
proof (induction ex i operations results events rule: Run_loop.induct)
  case (1 ex i operations results events)
  show ?case
  proof (cases "i < length operations")
    case True
    let ?m = "fst (operations ! i)"
    let ?op = "Run_modifier i operations"
    let ?ops = "operations[i := (?m, ?op)]"
    let ?ran = "Run_task ex ?m ?op"
    have "P (snd (operations ! i))" using True "1.prems"(1) by simp
    then have P_op: "P ?op"
      using "1.prems"(2) by (simp add: Run_modifier_eq)
    have ops: "\<forall>t \<in> set ?ops. P (snd t)"
    proof
      fix t assume "t \<in> set ?ops"
      then have "t = (?m, ?op) \<or> t \<in> set operations"
        using set_update_subset_insert [of operations i "(?m, ?op)"] by auto
      then show "P (snd t)" using P_op "1.prems"(1) by auto
    qed
    have task: "\<forall>e \<in> set (fst (snd ?ran)). G e"
      using "1.prems"(3) [OF P_op] by simp
    have evs: "\<forall>e \<in> set (events @ fst (snd ?ran)). G e"
      using "1.prems"(4) task by auto
    have unfold: "Run_loop ex i operations results events =
      (if snd (snd ?ran) = Returned
       then Run_loop ex (Suc i) ?ops (results @ [fst ?ran]) (events @ fst (snd ?ran))
       else (?ops, results @ [fst ?ran], events @ fst (snd ?ran), snd (snd ?ran)))"
      using True by (subst Run_loop.simps) (simp add: Let_def)
    show ?thesis
    proof (cases "snd (snd ?ran) = Returned")
      case r: True
      have "\<forall>e \<in> set (fst (snd (snd (Run_loop ex (Suc i) ?ops (results @ [fst ?ran])
                 (events @ fst (snd ?ran)))))). G e"
        using True r ops evs "1.prems"(2,3)
        by (intro "1.IH" [OF True refl refl refl refl refl refl]) blast+
      then show ?thesis using unfold r by simp
    next
      case False
      then show ?thesis using unfold evs by simp
    qed
  next
    case False
    then show ?thesis using "1.prems"(4) by (subst Run_loop.simps) simp
  qed
qed

subsection \<open>The task-building loop of Run\<close>

text \<open>A property of every pair of a drawn operation and a drawn module holds of every task
  the loop leaves, when it ends.\<close>

lemma Run_operations_invariant:
  assumes "Run_operations ex data parentDs operations = Some y"
    and "\<forall>t \<in> set operations. Q t"
    and "\<forall>ds0 op p ds1 m ds2. getOp ex (Some ds0) data = Return (op, p) \<longrightarrow>
        getModule ex ds1 = Return (Some m, ds2) \<longrightarrow> Q (m, op)"
  shows "\<forall>operations' ds'. y = Return (operations', ds') \<longrightarrow> (\<forall>t \<in> set operations'. Q t)"
  using assms(2,3)
proof (induction ex data parentDs operations y rule: Run_operations.raw_induct)
  case (1 run ex data parentDs operations y)
  note body = "1.hyps"
  note step = "1.IH"
  show ?case
  proof (cases "getOp ex (Some parentDs) data")
    case Throw
    then show ?thesis using body by simp
  next
    case (Return opp)
    obtain op p where opp: "opp = (op, p)" by (cases opp)
    let ?ds1 = "case p of None \<Rightarrow> parentDs | Some d \<Rightarrow> d"
    show ?thesis
    proof (cases "getModule ex ?ds1")
      case Throw
      then show ?thesis using body Return opp by (simp add: Let_def)
    next
      case gm: (Return md)
      obtain mo ds2 where md: "md = (mo, ds2)" by (cases md)
      show ?thesis
      proof (cases mo)
        case None
        show ?thesis
        proof (cases "Get_bool ex ds2")
          case Throw
          then show ?thesis using body Return opp gm md None by (simp add: Let_def)
        next
          case gb: (Return bd)
          obtain again ds3 where bd: "bd = (again, ds3)" by (cases bd)
          show ?thesis
          proof (cases again)
            case True
            then have "run ex data ds3 operations = Some y"
              using body Return opp gm md None gb bd by (simp add: Let_def)
            then show ?thesis using step "1.prems" by blast
          next
            case False
            then show ?thesis
              using body Return opp gm md None gb bd "1.prems"(1) by (auto simp: Let_def)
          qed
        qed
      next
        case (Some m)
        have q: "Q (m, op)"
          using "1.prems"(2) Return opp gm md Some by blast
        then have all: "\<forall>t \<in> set (operations @ [(m, op)]). Q t"
          using "1.prems"(1) by simp
        show ?thesis
        proof (cases "length (operations @ [(m, op)]) = MaxOperations ex")
          case True
          then show ?thesis
            using body Return opp gm md Some all by (auto simp: Let_def)
        next
          case full: False
          show ?thesis
          proof (cases "Get_bool ex ds2")
            case Throw
            then show ?thesis using body Return opp gm md Some full by (simp add: Let_def)
          next
            case gb: (Return bd)
            obtain again ds3 where bd: "bd = (again, ds3)" by (cases bd)
            show ?thesis
            proof (cases again)
              case True
              then have "run ex data ds3 (operations @ [(m, op)]) = Some y"
                using body Return opp gm md Some full gb bd by (simp add: Let_def)
              then show ?thesis using step all "1.prems"(2) by blast
            next
              case False
              then show ?thesis
                using body Return opp gm md Some full gb bd all by (auto simp: Let_def)
            qed
          qed
        qed
      qed
    qed
  qed
qed (fact assms(1))

subsection \<open>Run as a whole\<close>

text \<open>A run that ends either leaves no event, or passed the task-building loop, the
  fan-out and the \<^verbatim>\<open>minModules\<close> check; its events are then those of the execution loop,
  followed by those of \<^verbatim>\<open>compare\<close> when the loop ran to its end and \<^verbatim>\<open>noCompare\<close> is unset.\<close>

lemma Run_cases:
  assumes "Run ex parentDs data = Some (events, out)"
  obtains (empty) "events = []" and "out = Returned \<or> out = Exception"
  | (ran) operations ds tasks
    where "Run_operations ex data parentDs [] = Some (Return (operations, ds))"
      and "operations \<noteq> []"
      and "Run_fan_out ex operations = Return tasks"
      and "minModules (options ex) \<le> length tasks"
      and "events = fst (snd (snd (Run_loop ex 0 tasks []
               (if debug (options ex) = True \<and> tasks \<noteq> [] then [PrintOperation (snd (tasks ! 0))] else []))))
             @ (if snd (snd (snd (Run_loop ex 0 tasks [] []))) = Returned \<and> \<not> noCompare (options ex)
                then fst (compare ex
                       (fst (Run_loop ex 0 tasks []
                          (if debug (options ex) = True \<and> tasks \<noteq> [] then [PrintOperation (snd (tasks ! 0))] else [])))
                       (fst (snd (Run_loop ex 0 tasks []
                          (if debug (options ex) = True \<and> tasks \<noteq> [] then [PrintOperation (snd (tasks ! 0))] else []))))
                       data)
                else [])"
proof (cases "Run_operations ex data parentDs []")
  case None
  then show ?thesis using assms by (simp add: Run_def)
next
  case (Some built)
  show ?thesis
  proof (cases built)
    case Throw
    then show ?thesis using assms Some empty by (simp add: Run_def)
  next
    case (Return od)
    obtain operations ds where od: "od = (operations, ds)" by (cases od)
    show ?thesis
    proof (cases "operations = []")
      case True
      then show ?thesis using assms Some Return od empty by (simp add: Run_def)
    next
      case ne: False
      obtain tasks where fan: "Run_fan_out ex operations = Return tasks"
        using Run_fan_out_Return [OF ne] by blast
      show ?thesis
      proof (cases "length tasks < minModules (options ex)")
        case True
        then show ?thesis using assms Some Return od ne fan empty by (simp add: Run_def)
      next
        case False
        let ?shown = "if debug (options ex) = True \<and> tasks \<noteq> [] then [PrintOperation (snd (tasks ! 0))] else []"
        let ?loop = "Run_loop ex 0 tasks [] ?shown"
        have outcome: "snd (snd (snd ?loop)) = snd (snd (snd (Run_loop ex 0 tasks [] [])))"
          by (rule Run_loop_outcome)
        have run: "Run ex parentDs data =
          (if snd (snd (snd ?loop)) = Returned then
             (if noCompare (options ex) = False then
                Some (fst (snd (snd ?loop)) @ fst (compare ex (fst ?loop) (fst (snd ?loop)) data),
                      snd (compare ex (fst ?loop) (fst (snd ?loop)) data))
              else Some (fst (snd (snd ?loop)), Returned))
           else Some (fst (snd (snd ?loop)), snd (snd (snd ?loop))))"
          using Some Return od ne fan False by (simp add: Run_def Let_def)
        have "events = fst (snd (snd ?loop))
             @ (if snd (snd (snd (Run_loop ex 0 tasks [] []))) = Returned \<and> \<not> noCompare (options ex)
                then fst (compare ex (fst ?loop) (fst (snd ?loop)) data) else [])"
          using assms run outcome by (auto split: if_splits)
        then show ?thesis
          using Some Return od ne fan False ran [of operations ds tasks] by simp
      qed
    qed
  qed
qed

lemma Run_events_invariant:
  assumes run: "Run ex parentDs data = Some (events, out)"
    and drawn: "\<And>ds0 op p. getOp ex (Some ds0) data = Return (op, p) \<Longrightarrow> P op"
    and pres: "\<And>op b. P op \<Longrightarrow> P (op\<lparr>modifier := b\<rparr>)"
    and task: "\<And>m op. P op \<Longrightarrow> \<forall>e \<in> set (fst (snd (Run_task ex m op))). G e"
    and print: "\<And>op. P op \<Longrightarrow> G (PrintOperation op)"
    and cmp: "\<And>ops res. \<forall>e \<in> set (fst (compare ex ops res data)). G e"
  shows "\<forall>e \<in> set events. G e"
  using run
proof (cases rule: Run_cases)
  case empty
  then show ?thesis by simp
next
  case (ran operations ds tasks)
  have ops: "\<forall>t \<in> set operations. P (snd t)"
    using Run_operations_invariant [OF ran(1), of "\<lambda>t. P (snd t)"] drawn by auto
  have "tasks = operations @ map (\<lambda>k. (the (map_of (modules ex) k), snd (operations ! 0)))
                              (addModuleIDs ex operations)"
    using ran(3) Run_fan_out_Return [OF ran(2), of ex] by simp
  moreover have "P (snd (operations ! 0))" using ops ran(2) by simp
  ultimately have tasks: "\<forall>t \<in> set tasks. P (snd t)"
    using ops by auto
  have first: "tasks \<noteq> [] \<longrightarrow> P (snd (tasks ! 0))" using tasks by simp
  have "\<forall>e \<in> set (fst (snd (snd (Run_loop ex 0 tasks []
      (if debug (options ex) = True \<and> tasks \<noteq> [] then [PrintOperation (snd (tasks ! 0))] else []))))). G e"
    using tasks pres task first print
    by (intro Run_loop_events_invariant [where P = P]) auto
  then show ?thesis using ran(5) cmp by auto
qed

lemma callModule_BignumCalc_events:
  "set (fst (callModule_BignumCalc opts env m op)) \<subseteq> {ModuleOp m op}"
  unfolding callModule_BignumCalc_def by (cases "calcOp op") auto

lemma postprocess_BignumCalc_events:
  "set (fst (postprocess_BignumCalc env m op r)) \<subseteq> range Pool_Bignum_Set"
  by (auto simp: postprocess_BignumCalc_def Let_def)

lemma modular_executor_events:
  assumes run: "Run ex parentDs data = Some (events, out)"
    and stamp: "getOpPostprocess ex = (\<lambda>ds op. Return (op\<lparr>modulo := Some S\<rparr>, ds))"
    and call: "callModule ex = callModule_BignumCalc opts env"
    and post: "postprocess ex = postprocess_BignumCalc env'"
    and cmp: "compare ex = compare_default ex'"
    and event: "CallModule m op \<in> set events \<or> ModuleOp m op \<in> set events"
  shows "modulo op = Some S"
proof -
  let ?P = "\<lambda>op. modulo op = Some S"
  let ?G = "\<lambda>e. \<forall>m op. e = CallModule m op \<or> e = ModuleOp m op \<longrightarrow> modulo op = Some S"
  have drawn: "\<And>ds0 op p. getOp ex (Some ds0) data = Return (op, p) \<Longrightarrow> ?P op"
    by (auto simp: getOp_def stamp split: throwing.splits prod.splits)
  have task: "\<And>m op. ?P op \<Longrightarrow> \<forall>e \<in> set (fst (snd (Run_task ex m op))). ?G e"
    using callModule_BignumCalc_events postprocess_BignumCalc_events
    by (fastforce simp: Run_task_events call post split: if_splits)
  have compared: "\<And>ops res. \<forall>e \<in> set (fst (compare ex ops res data)). ?G e"
    using compare_default_events by (fastforce simp: cmp)
  have "\<forall>e \<in> set events. ?G e"
    using run drawn _ task _ compared
    by (rule Run_events_invariant [where P = ?P]) auto
  then show ?thesis using event by blast
qed

subsection \<open>The modular bignum-calc executors\<close>

text \<open>
  Claim C6. In a run of one of the three modular executors, every operation that \<^verbatim>\<open>Run\<close>
  passes to \<^verbatim>\<open>callModule\<close>, and every operation on which a module's OpBignumCalc is
  invoked, carries the executor's modulus as \<^verbatim>\<open>modulo\<close>, whatever the constructor of the
  operation had put there.
\<close>

theorem C6_modulus_stamping:
  "(Run (ExecutorBignumCalc_Mod_BLS12_381_R base) parentDs data = Some (events, out)
      \<and> (CallModule m op \<in> set events \<or> ModuleOp m op \<in> set events) \<longrightarrow>
      modulo op = Some ''52435875175126190479447740508185965837690552500527637822603658699938581184513'')
   \<and> (Run (ExecutorBignumCalc_Mod_BLS12_381_P base) parentDs data = Some (events, out)
      \<and> (CallModule m op \<in> set events \<or> ModuleOp m op \<in> set events) \<longrightarrow>
      modulo op = Some ''4002409555221667393417789825735904156556882819939007885332058136124031650490837864442687629129015664037894272559787'')
   \<and> (Run (ExecutorBignumCalc_Mod_2Exp256 base) parentDs data = Some (events, out)
      \<and> (CallModule m op \<in> set events \<or> ModuleOp m op \<in> set events) \<longrightarrow>
      modulo op = Some ''115792089237316195423570985008687907853269984665640564039457584007913129639936'')"
proof (intro conjI impI)
  assume a: "Run (ExecutorBignumCalc_Mod_BLS12_381_R base) parentDs data = Some (events, out)
      \<and> (CallModule m op \<in> set events \<or> ModuleOp m op \<in> set events)"
  show "modulo op = Some ''52435875175126190479447740508185965837690552500527637822603658699938581184513''"
  proof (rule modular_executor_events)
    show "Run (ExecutorBignumCalc_Mod_BLS12_381_R base) parentDs data = Some (events, out)"
      using a by simp
    show "CallModule m op \<in> set events \<or> ModuleOp m op \<in> set events" using a by simp
    show "getOpPostprocess (ExecutorBignumCalc_Mod_BLS12_381_R base) =
        (\<lambda>ds op. Return (op\<lparr>modulo := Some ''52435875175126190479447740508185965837690552500527637822603658699938581184513''\<rparr>, ds))"
      by (intro ext) (simp add: ExecutorBignumCalc_Mod_BLS12_381_R_def Let_def
          getOpPostprocess_Mod_BLS12_381_R_def ExecutorBignumCalc_Mod_BLS12_381_R_modulo_def SetModulo_def)
    show "callModule (ExecutorBignumCalc_Mod_BLS12_381_R base)
        = callModule_BignumCalc (options base) (environment base)"
      by (simp add: ExecutorBignumCalc_Mod_BLS12_381_R_def ExecutorBignumCalc_def Let_def)
    show "postprocess (ExecutorBignumCalc_Mod_BLS12_381_R base) = postprocess_BignumCalc (environment base)"
      by (simp add: ExecutorBignumCalc_Mod_BLS12_381_R_def ExecutorBignumCalc_def Let_def)
    show "compare (ExecutorBignumCalc_Mod_BLS12_381_R base)
        = compare_default ((ExecutorBignumCalc base)\<lparr>getOpPostprocess := getOpPostprocess_Mod_BLS12_381_R\<rparr>)"
      by (simp add: ExecutorBignumCalc_Mod_BLS12_381_R_def Let_def)
  qed
next
  assume a: "Run (ExecutorBignumCalc_Mod_BLS12_381_P base) parentDs data = Some (events, out)
      \<and> (CallModule m op \<in> set events \<or> ModuleOp m op \<in> set events)"
  show "modulo op = Some ''4002409555221667393417789825735904156556882819939007885332058136124031650490837864442687629129015664037894272559787''"
  proof (rule modular_executor_events)
    show "Run (ExecutorBignumCalc_Mod_BLS12_381_P base) parentDs data = Some (events, out)"
      using a by simp
    show "CallModule m op \<in> set events \<or> ModuleOp m op \<in> set events" using a by simp
    show "getOpPostprocess (ExecutorBignumCalc_Mod_BLS12_381_P base) =
        (\<lambda>ds op. Return (op\<lparr>modulo := Some ''4002409555221667393417789825735904156556882819939007885332058136124031650490837864442687629129015664037894272559787''\<rparr>, ds))"
      by (intro ext) (simp add: ExecutorBignumCalc_Mod_BLS12_381_P_def Let_def
          getOpPostprocess_Mod_BLS12_381_P_def ExecutorBignumCalc_Mod_BLS12_381_P_modulo_def SetModulo_def)
    show "callModule (ExecutorBignumCalc_Mod_BLS12_381_P base)
        = callModule_BignumCalc (options base) (environment base)"
      by (simp add: ExecutorBignumCalc_Mod_BLS12_381_P_def ExecutorBignumCalc_def Let_def)
    show "postprocess (ExecutorBignumCalc_Mod_BLS12_381_P base) = postprocess_BignumCalc (environment base)"
      by (simp add: ExecutorBignumCalc_Mod_BLS12_381_P_def ExecutorBignumCalc_def Let_def)
    show "compare (ExecutorBignumCalc_Mod_BLS12_381_P base)
        = compare_default ((ExecutorBignumCalc base)\<lparr>getOpPostprocess := getOpPostprocess_Mod_BLS12_381_P\<rparr>)"
      by (simp add: ExecutorBignumCalc_Mod_BLS12_381_P_def Let_def)
  qed
next
  assume a: "Run (ExecutorBignumCalc_Mod_2Exp256 base) parentDs data = Some (events, out)
      \<and> (CallModule m op \<in> set events \<or> ModuleOp m op \<in> set events)"
  show "modulo op = Some ''115792089237316195423570985008687907853269984665640564039457584007913129639936''"
  proof (rule modular_executor_events)
    show "Run (ExecutorBignumCalc_Mod_2Exp256 base) parentDs data = Some (events, out)"
      using a by simp
    show "CallModule m op \<in> set events \<or> ModuleOp m op \<in> set events" using a by simp
    show "getOpPostprocess (ExecutorBignumCalc_Mod_2Exp256 base) =
        (\<lambda>ds op. Return (op\<lparr>modulo := Some ''115792089237316195423570985008687907853269984665640564039457584007913129639936''\<rparr>, ds))"
      by (intro ext) (simp add: ExecutorBignumCalc_Mod_2Exp256_def Let_def
          getOpPostprocess_Mod_2Exp256_def ExecutorBignumCalc_Mod_2Exp256_modulo_def SetModulo_def)
    show "callModule (ExecutorBignumCalc_Mod_2Exp256 base)
        = callModule_BignumCalc (options base) (environment base)"
      by (simp add: ExecutorBignumCalc_Mod_2Exp256_def ExecutorBignumCalc_def Let_def)
    show "postprocess (ExecutorBignumCalc_Mod_2Exp256 base) = postprocess_BignumCalc (environment base)"
      by (simp add: ExecutorBignumCalc_Mod_2Exp256_def ExecutorBignumCalc_def Let_def)
    show "compare (ExecutorBignumCalc_Mod_2Exp256 base)
        = compare_default ((ExecutorBignumCalc base)\<lparr>getOpPostprocess := getOpPostprocess_Mod_2Exp256\<rparr>)"
      by (simp add: ExecutorBignumCalc_Mod_2Exp256_def Let_def)
  qed
qed

theorem C6_modulus_stamping_witness:
  "(\<exists>events out.
      Run (ExecutorBignumCalc_Mod_BLS12_381_R (example_ExecutorBase example_BignumCalc_from)) [0, 2, 0] []
        = Some (events, out)
      \<and> CallModule 0 \<lparr> modifier = [], calcOp = CalcOp_Other 0, bn0 = ''1'', bn1 = ''2'', bn2 = [],
            bn3 = [], modulo = Some ''52435875175126190479447740508185965837690552500527637822603658699938581184513'' \<rparr>
          \<in> set events)
   \<and> (\<exists>events out.
      Run (ExecutorBignumCalc_Mod_BLS12_381_P (example_ExecutorBase example_BignumCalc_from)) [0, 2, 0] []
        = Some (events, out)
      \<and> CallModule 0 \<lparr> modifier = [], calcOp = CalcOp_Other 0, bn0 = ''1'', bn1 = ''2'', bn2 = [],
            bn3 = [], modulo = Some ''4002409555221667393417789825735904156556882819939007885332058136124031650490837864442687629129015664037894272559787'' \<rparr>
          \<in> set events)
   \<and> (\<exists>events out.
      Run (ExecutorBignumCalc_Mod_2Exp256 (example_ExecutorBase example_BignumCalc_from)) [0, 2, 0] []
        = Some (events, out)
      \<and> CallModule 0 \<lparr> modifier = [], calcOp = CalcOp_Other 0, bn0 = ''1'', bn1 = ''2'', bn2 = [],
            bn3 = [], modulo = Some ''115792089237316195423570985008687907853269984665640564039457584007913129639936'' \<rparr>
          \<in> set events)"
proof -
  let ?base = "example_ExecutorBase example_BignumCalc_from :: (nat list, unit BignumCalc_ext, Bignum) ExecutorBase"
  let ?op = "\<lparr> modifier = [], calcOp = CalcOp_Other 0, bn0 = ''1'', bn1 = ''2'', bn2 = [],
            bn3 = [], modulo = None \<rparr>"
  have r: "Run (ExecutorBignumCalc_Mod_BLS12_381_R ?base) [0, 2, 0] [] \<noteq> None"
    by code_simp
  have r_call: "\<exists>op. CallModule 0 op \<in> set (fst (the (Run (ExecutorBignumCalc_Mod_BLS12_381_R ?base) [0, 2, 0] [])))
      \<and> op\<lparr>modulo := None\<rparr> = ?op"
    by (rule exI [of _ "?op\<lparr>modulo := Some ''52435875175126190479447740508185965837690552500527637822603658699938581184513''\<rparr>"])
       code_simp
  have p: "Run (ExecutorBignumCalc_Mod_BLS12_381_P ?base) [0, 2, 0] [] \<noteq> None"
    by code_simp
  have p_call: "\<exists>op. CallModule 0 op \<in> set (fst (the (Run (ExecutorBignumCalc_Mod_BLS12_381_P ?base) [0, 2, 0] [])))
      \<and> op\<lparr>modulo := None\<rparr> = ?op"
    by (rule exI [of _ "?op\<lparr>modulo := Some ''4002409555221667393417789825735904156556882819939007885332058136124031650490837864442687629129015664037894272559787''\<rparr>"])
       code_simp
  have e: "Run (ExecutorBignumCalc_Mod_2Exp256 ?base) [0, 2, 0] [] \<noteq> None"
    by code_simp
  have e_call: "\<exists>op. CallModule 0 op \<in> set (fst (the (Run (ExecutorBignumCalc_Mod_2Exp256 ?base) [0, 2, 0] [])))
      \<and> op\<lparr>modulo := None\<rparr> = ?op"
    by (rule exI [of _ "?op\<lparr>modulo := Some ''115792089237316195423570985008687907853269984665640564039457584007913129639936''\<rparr>"])
       code_simp
  from r obtain ev1 out1 where
    run1: "Run (ExecutorBignumCalc_Mod_BLS12_381_R ?base) [0, 2, 0] [] = Some (ev1, out1)" by auto
  from r_call run1 obtain op1 where op1: "CallModule 0 op1 \<in> set ev1" "op1\<lparr>modulo := None\<rparr> = ?op" by auto
  from p obtain ev2 out2 where
    run2: "Run (ExecutorBignumCalc_Mod_BLS12_381_P ?base) [0, 2, 0] [] = Some (ev2, out2)" by auto
  from p_call run2 obtain op2 where op2: "CallModule 0 op2 \<in> set ev2" "op2\<lparr>modulo := None\<rparr> = ?op" by auto
  from e obtain ev3 out3 where
    run3: "Run (ExecutorBignumCalc_Mod_2Exp256 ?base) [0, 2, 0] [] = Some (ev3, out3)" by auto
  from e_call run3 obtain op3 where op3: "CallModule 0 op3 \<in> set ev3" "op3\<lparr>modulo := None\<rparr> = ?op" by auto
  have m1: "modulo op1 = Some ''52435875175126190479447740508185965837690552500527637822603658699938581184513''"
    using C6_modulus_stamping [of ?base "[0, 2, 0]" "[]" ev1 out1 0 op1] run1 op1(1) by blast
  have m2: "modulo op2 = Some ''4002409555221667393417789825735904156556882819939007885332058136124031650490837864442687629129015664037894272559787''"
    using C6_modulus_stamping [of ?base "[0, 2, 0]" "[]" ev2 out2 0 op2] run2 op2(1) by blast
  have m3: "modulo op3 = Some ''115792089237316195423570985008687907853269984665640564039457584007913129639936''"
    using C6_modulus_stamping [of ?base "[0, 2, 0]" "[]" ev3 out3 0 op3] run3 op3(1) by blast
  have "op1 = ?op\<lparr>modulo := modulo op1\<rparr>" using op1(2) by (cases op1) auto
  then have o1: "op1 = ?op\<lparr>modulo := Some ''52435875175126190479447740508185965837690552500527637822603658699938581184513''\<rparr>"
    using m1 by simp
  have "op2 = ?op\<lparr>modulo := modulo op2\<rparr>" using op2(2) by (cases op2) auto
  then have o2: "op2 = ?op\<lparr>modulo := Some ''4002409555221667393417789825735904156556882819939007885332058136124031650490837864442687629129015664037894272559787''\<rparr>"
    using m2 by simp
  have "op3 = ?op\<lparr>modulo := modulo op3\<rparr>" using op3(2) by (cases op3) auto
  then have o3: "op3 = ?op\<lparr>modulo := Some ''115792089237316195423570985008687907853269984665640564039457584007913129639936''\<rparr>"
    using m3 by simp
  show ?thesis
    using run1 op1(1) o1 run2 op2(1) o2 run3 op3(1) o3 by simp
qed

subsection \<open>forceModule and the fan-out\<close>

lemma getModule_forced:
  "forceModule (options ex) = Some forced \<Longrightarrow> getModule ex ds1 = Return (Some m, ds2) \<Longrightarrow>
   map_of (modules ex) forced = Some m"
  by (auto simp: getModule_def Let_def split: throwing.splits prod.splits if_splits option.splits)

text \<open>When the execution loop over the first \<open>j\<close> tasks runs to its end, the loop over all
  tasks reaches task \<open>j\<close>, and the events of its body are events of the loop.\<close>

lemma Run_loop_reaches:
  "snd (snd (snd (Run_loop ex i (take j operations) results events))) = Returned \<Longrightarrow>
   i \<le> j \<Longrightarrow> j < length operations \<Longrightarrow>
   set (fst (snd (Run_task ex (fst (operations ! j)) (Run_modifier j operations))))
     \<subseteq> set (fst (snd (snd (Run_loop ex i operations results' events'))))"
proof (induction "j - i" arbitrary: i operations results events results' events')
  case 0
  then have ij: "i = j" by simp
  let ?ran = "Run_task ex (fst (operations ! j)) (Run_modifier j operations)"
  let ?ops = "operations[j := (fst (operations ! j), Run_modifier j operations)]"
  obtain more where
    "fst (snd (snd (Run_loop ex (Suc j) ?ops (results' @ [fst ?ran]) (events' @ fst (snd ?ran)))))
       = (events' @ fst (snd ?ran)) @ more"
    using Run_loop_events_prefix by blast
  then show ?case
    using "0.prems"(3) ij by (auto simp: Run_loop_unfold [of j operations])
next
  case (Suc n)
  then have lt: "i < j" by simp
  then have lt': "i < length (take j operations)" "i < length operations"
    using Suc.prems(3) by simp_all
  let ?m = "fst (operations ! i)"
  let ?op = "Run_modifier i operations"
  let ?ran = "Run_task ex ?m ?op"
  let ?ops = "operations[i := (?m, ?op)]"
  have m: "fst (take j operations ! i) = ?m" using lt by simp
  have op: "Run_modifier i (take j operations) = ?op"
    using lt by (simp add: Run_modifier_def Let_def)
  have upd: "(take j operations)[i := (?m, ?op)] = take j ?ops"
    by (simp add: take_update_swap)
  have returned: "snd (snd ?ran) = Returned"
    using Suc.prems(1) lt'(1) m op
    by (simp add: Run_loop_unfold [of i "take j operations"] split: if_splits)
  then have prefix: "snd (snd (snd (Run_loop ex (Suc i) (take j ?ops) (results @ [fst ?ran])
        (events @ fst (snd ?ran))))) = Returned"
    using Suc.prems(1) lt'(1) m op upd
    by (simp add: Run_loop_unfold [of i "take j operations"])
  have n: "n = j - Suc i" using Suc.hyps(2) by simp
  have j: "Suc i \<le> j" "j < length ?ops" using lt Suc.prems(3) by simp_all
  have "set (fst (snd (Run_task ex (fst (?ops ! j)) (Run_modifier j ?ops))))
     \<subseteq> set (fst (snd (snd (Run_loop ex (Suc i) ?ops (results' @ [fst ?ran])
                 (events' @ fst (snd ?ran))))))"
    using n prefix j by (rule Suc.hyps(1))
  moreover have "fst (?ops ! j) = fst (operations ! j)" using lt by simp
  moreover have "Run_modifier j ?ops = Run_modifier j operations"
    using lt lt'(2) Suc.prems(3) by (intro Run_modifier_update) simp_all
  ultimately show ?case
    using returned lt'(2) by (simp add: Run_loop_unfold [of i operations])
qed

lemma Run_reaches_loop:
  assumes "Run_operations ex data parentDs [] = Some (Return (operations, ds))"
    and "operations \<noteq> []"
    and "Run_fan_out ex operations = Return tasks"
    and "minModules (options ex) \<le> length tasks"
  shows "\<exists>shown more out. Run ex parentDs data
      = Some (fst (snd (snd (Run_loop ex 0 tasks [] shown))) @ more, out)"
proof -
  define loop where
    "loop = Run_loop ex 0 tasks []
       (if debug (options ex) = True \<and> tasks \<noteq> [] then [PrintOperation (snd (tasks ! 0))] else [])"
  define compared where "compared = compare ex (fst loop) (fst (snd loop)) data"
  have run: "Run ex parentDs data =
    (if snd (snd (snd loop)) = Returned then
       (if noCompare (options ex) = False then
          Some (fst (snd (snd loop)) @ fst compared, snd compared)
        else Some (fst (snd (snd loop)), Returned))
     else Some (fst (snd (snd loop)), snd (snd (snd loop))))"
    using assms by (simp add: Run_def Let_def loop_def compared_def)
  have "\<exists>more out. Run ex parentDs data = Some (fst (snd (snd loop)) @ more, out)"
  proof (cases "snd (snd (snd loop)) = Returned")
    case True
    show ?thesis
    proof (cases "noCompare (options ex)")
      case False
      then have "Run ex parentDs data = Some (fst (snd (snd loop)) @ fst compared, snd compared)"
        using run True by simp
      then show ?thesis by blast
    next
      case nc: True
      then have "Run ex parentDs data = Some (fst (snd (snd loop)) @ [], Returned)"
        using run True by simp
      then show ?thesis by blast
    qed
  next
    case False
    then have "Run ex parentDs data = Some (fst (snd (snd loop)) @ [], snd (snd (snd loop)))"
      using run by simp
    then show ?thesis by blast
  qed
  then show ?thesis unfolding loop_def by blast
qed

text \<open>
  Claim C9, amended. With \<^verbatim>\<open>forceModule\<close> set, every task built from the Datasource runs
  on the module registered under the forced identifier. When the task-building loop ends
  with at least one task, the fan-out still appends, for every other registered module
  that is not disabled, a task pairing it with the operation of the first task. When the
  task list has at least \<^verbatim>\<open>minModules\<close> entries and no task before that one ends the run
  (the execution loop over the tasks before it runs to its end), \<^verbatim>\<open>Run\<close> calls \<^verbatim>\<open>callModule\<close>
  with that module and that operation, unchanged, and everything this call does is part of
  the run: the family method of the module is invoked on \<^verbatim>\<open>tasks[0].op\<close> in the run whenever
  \<^verbatim>\<open>callModule\<close> invokes it on them, that is, unless \<^verbatim>\<open>callModule\<close> returns at one of its gates.
  How the task of that module ends after the call (its tests or its \<^verbatim>\<open>postprocess\<close> may
  abort) does not matter.
\<close>

theorem C9_forceModule_fan_out:
  assumes force: "forceModule (options ex) = Some forced"
    and registry: "\<forall>k p. map_of (modules ex) k = Some p \<longrightarrow> ID (heap (environment ex) p) = k"
    and built: "Run_operations ex data parentDs [] = Some (Return (operations, ds))"
    and accepted: "operations \<noteq> []"
  shows
    "(\<forall>t \<in> set operations. map_of (modules ex) forced = Some (fst t))
     \<and> (\<exists>tasks. Run_fan_out ex operations = Return tasks
          \<and> (\<forall>k p. map_of (modules ex) k = Some p
                  \<and> \<not> disableModules_HaveExplicit (options ex) k \<and> k \<noteq> forced \<longrightarrow>
                (\<exists>j. length operations \<le> j \<and> j < length tasks
                   \<and> tasks ! j = (p, snd (operations ! 0))
                   \<and> (minModules (options ex) \<le> length tasks
                       \<and> snd (snd (snd (Run_loop ex 0 (take j tasks) [] []))) = Returned \<longrightarrow>
                      (\<exists>events out. Run ex parentDs data = Some (events, out)
                         \<and> CallModule p (snd (operations ! 0)) \<in> set events
                         \<and> set (fst (callModule ex p (snd (operations ! 0)))) \<subseteq> set events
                         \<and> (ModuleOp p (snd (operations ! 0))
                              \<in> set (fst (callModule ex p (snd (operations ! 0)))) \<longrightarrow>
                            ModuleOp p (snd (operations ! 0)) \<in> set events))))))"
proof -
  let ?id = "\<lambda>t. ID (heap (environment ex) (fst t))"
  let ?ids = "addModuleIDs ex operations"
  let ?op = "snd (operations ! 0)"
  let ?f = "\<lambda>k. (the (map_of (modules ex) k), ?op)"
  let ?tasks = "operations @ map ?f ?ids"
  let ?n = "length operations"
  have forced: "\<forall>t \<in> set operations. map_of (modules ex) forced = Some (fst t)"
    using Run_operations_invariant [OF built, of "\<lambda>t. map_of (modules ex) forced = Some (fst t)"]
      getModule_forced [OF force]
    by auto
  then have op_ids: "\<forall>t \<in> set operations. ?id t = forced"
    using registry by auto
  have fan: "Run_fan_out ex operations = Return ?tasks"
    using accepted by (rule Run_fan_out_Return)
  have other: "\<forall>k p. map_of (modules ex) k = Some p
                  \<and> \<not> disableModules_HaveExplicit (options ex) k \<and> k \<noteq> forced \<longrightarrow>
                (\<exists>j. ?n \<le> j \<and> j < length ?tasks \<and> ?tasks ! j = (p, ?op)
                   \<and> (minModules (options ex) \<le> length ?tasks
                       \<and> snd (snd (snd (Run_loop ex 0 (take j ?tasks) [] []))) = Returned \<longrightarrow>
                      (\<exists>events out. Run ex parentDs data = Some (events, out)
                         \<and> CallModule p ?op \<in> set events
                         \<and> set (fst (callModule ex p ?op)) \<subseteq> set events
                         \<and> (ModuleOp p ?op \<in> set (fst (callModule ex p ?op)) \<longrightarrow>
                            ModuleOp p ?op \<in> set events))))"
  proof (intro allI impI)
    fix k p
    assume kp: "map_of (modules ex) k = Some p
                  \<and> \<not> disableModules_HaveExplicit (options ex) k \<and> k \<noteq> forced"
    then have "k \<in> fst ` set (modules ex)"
      by (metis map_of_eq_None_iff option.distinct(1))
    then have k_in: "k \<in> set ?ids"
      using kp op_ids by (auto simp: set_addModuleIDs moduleIDs_eq operationModuleIDs_eq)
    then obtain j' where j': "j' < length ?ids" "?ids ! j' = k"
      by (auto simp: in_set_conv_nth)
    let ?j = "?n + j'"
    have nth_j: "?tasks ! ?j = (p, ?op)"
      using j' kp by (simp add: nth_append)
    have j_lt: "?j < length ?tasks" using j' by simp
    have j_pos: "0 < ?j" using accepted by simp
    have differ: "fst (?tasks ! (?j - 1)) \<noteq> fst (?tasks ! ?j)"
    proof (cases j')
      case 0
      then have "?tasks ! (?j - 1) = operations ! (?n - 1)"
        using accepted by (simp add: nth_append)
      moreover have "operations ! (?n - 1) \<in> set operations" using accepted by simp
      ultimately have "?id (?tasks ! (?j - 1)) = forced" using op_ids by simp
      moreover have "?id (?tasks ! ?j) = k" using nth_j kp registry by simp
      ultimately show ?thesis using kp by auto
    next
      case (Suc i')
      then have prev: "?tasks ! (?j - 1) = ?f (?ids ! i')"
        using j' by (simp add: nth_append)
      have "distinct ?ids" by (simp add: addModuleIDs_def)
      then have ne: "?ids ! i' \<noteq> k"
        using j' Suc by (auto simp: nth_eq_iff_index_eq)
      have "?ids ! i' \<in> set ?ids" using j' Suc by simp
      then have "\<exists>q. map_of (modules ex) (?ids ! i') = Some q"
        by (auto simp: set_addModuleIDs moduleIDs_eq dest: weak_map_of_SomeI)
      then have "?id (?tasks ! (?j - 1)) = ?ids ! i'"
        using prev registry by auto
      moreover have "?id (?tasks ! ?j) = k" using nth_j kp registry by simp
      ultimately show ?thesis using ne by auto
    qed
    have unchanged: "Run_modifier ?j ?tasks = ?op"
      using differ nth_j by (simp add: Run_modifier_eq)
    have run: "minModules (options ex) \<le> length ?tasks
                 \<and> snd (snd (snd (Run_loop ex 0 (take ?j ?tasks) [] []))) = Returned \<longrightarrow>
               (\<exists>events out. Run ex parentDs data = Some (events, out)
                  \<and> CallModule p ?op \<in> set events
                  \<and> set (fst (callModule ex p ?op)) \<subseteq> set events
                  \<and> (ModuleOp p ?op \<in> set (fst (callModule ex p ?op)) \<longrightarrow>
                     ModuleOp p ?op \<in> set events))"
    proof
      assume a: "minModules (options ex) \<le> length ?tasks
                 \<and> snd (snd (snd (Run_loop ex 0 (take ?j ?tasks) [] []))) = Returned"
      obtain shown more out where r: "Run ex parentDs data
          = Some (fst (snd (snd (Run_loop ex 0 ?tasks [] shown))) @ more, out)"
        using Run_reaches_loop [OF built accepted fan] a by blast
      let ?events = "fst (snd (snd (Run_loop ex 0 ?tasks [] shown))) @ more"
      have "set (fst (snd (Run_task ex (fst (?tasks ! ?j)) (Run_modifier ?j ?tasks))))
          \<subseteq> set (fst (snd (snd (Run_loop ex 0 ?tasks [] shown))))"
        using a j_lt by (intro Run_loop_reaches [where results = "[]" and events = "[]"]) simp_all
      then have task: "set (fst (snd (Run_task ex p ?op))) \<subseteq> set ?events"
        using nth_j unchanged by auto
      have "CallModule p ?op \<in> set ?events"
        using task Run_task_CallModule [of p ?op ex] by blast
      moreover have "set (fst (callModule ex p ?op)) \<subseteq> set ?events"
        using task by (auto simp: Run_task_events)
      ultimately show "\<exists>events out. Run ex parentDs data = Some (events, out)
                  \<and> CallModule p ?op \<in> set events
                  \<and> set (fst (callModule ex p ?op)) \<subseteq> set events
                  \<and> (ModuleOp p ?op \<in> set (fst (callModule ex p ?op)) \<longrightarrow>
                     ModuleOp p ?op \<in> set events)"
        using r by blast
    qed
    show "\<exists>j. ?n \<le> j \<and> j < length ?tasks \<and> ?tasks ! j = (p, ?op)
                   \<and> (minModules (options ex) \<le> length ?tasks
                       \<and> snd (snd (snd (Run_loop ex 0 (take j ?tasks) [] []))) = Returned \<longrightarrow>
                      (\<exists>events out. Run ex parentDs data = Some (events, out)
                         \<and> CallModule p ?op \<in> set events
                         \<and> set (fst (callModule ex p ?op)) \<subseteq> set events
                         \<and> (ModuleOp p ?op \<in> set (fst (callModule ex p ?op)) \<longrightarrow>
                            ModuleOp p ?op \<in> set events)))"
      using j_lt nth_j run by (intro exI [of _ ?j]) simp
  qed
  show ?thesis using forced fan other by blast
qed

text \<open>Two runs in which the forced module is OpenSSL. In the first, Botan is called and
  its family method is invoked, although the \<^verbatim>\<open>postprocess\<close> of its own task then aborts. In
  the second, \<^verbatim>\<open>callModule\<close> is the one of BignumCalc, and no gate stops it.\<close>

theorem C9_forceModule_fan_out_witness:
  "Run_operations (example_SymmetricEncrypt_Executor (example_Options\<lparr>forceModule := Some 1\<rparr>))
      [] [0, 2, 0] []
     = Some (Return ([(0, example_SymmetricEncrypt\<lparr>modifier := []\<rparr>)], []))
   \<and> (\<exists>events.
        Run (example_SymmetricEncrypt_Executor (example_Options\<lparr>forceModule := Some 1\<rparr>)) [0, 2, 0] []
          = Some (events,
                  Aborted \<lparr> failure_moduleNames = [''Botan''], failure_operation = ''SymmetricEncrypt'',
                            failure_algorithm = ''AES_256_GCM'',
                            failure_reason = ''cannot decrypt ciphertext'' \<rparr>)
        \<and> CallModule 1 (example_SymmetricEncrypt\<lparr>modifier := []\<rparr>) \<in> set events
        \<and> ModuleOp 1 (example_SymmetricEncrypt\<lparr>modifier := []\<rparr>) \<in> set events)
   \<and> (\<exists>events out.
        Run (example_BignumCalc_Executor (example_Options\<lparr>forceModule := Some 1\<rparr>) example_Environment)
          [0, 2, 0] [] = Some (events, out)
        \<and> ModuleOp 1 (example_BignumCalc\<lparr>calcOp := CalcOp_Other 0, bn0 := ''1'', modulo := Some ''7''\<rparr>)
             \<in> set events)"
proof -
  let ?ex = "example_SymmetricEncrypt_Executor (example_Options\<lparr>forceModule := Some 1\<rparr>)"
  let ?op = "example_SymmetricEncrypt\<lparr>modifier := []\<rparr>"
  let ?ops = "[(0::nat, ?op)]"
  let ?f = "\<lparr> failure_moduleNames = [''Botan''], failure_operation = ''SymmetricEncrypt'',
              failure_algorithm = ''AES_256_GCM'', failure_reason = ''cannot decrypt ciphertext'' \<rparr>"
  have force: "forceModule (options ?ex) = Some 1"
    by (simp add: example_SymmetricEncrypt_Executor_def Let_def)
  have registry: "\<forall>k p. map_of (modules ?ex) k = Some p \<longrightarrow> ID (heap (environment ?ex) p) = k"
    by (simp add: example_SymmetricEncrypt_Executor_def example_ExecutorBase_def
        example_Environment_def example_Module_def Let_def)
  have built: "Run_operations ?ex [] [0, 2, 0] [] = Some (Return (?ops, []))"
    by code_simp
  have accepted: "?ops \<noteq> []" by simp
  have fan: "Run_fan_out ?ex ?ops = Return [(0, ?op), (1, ?op)]"
    by code_simp
  have before: "snd (snd (snd (Run_loop ?ex 0 [(0, ?op)] [] []))) = Returned"
    by code_simp
  have botan: "map_of (modules ?ex) 2 = Some 1
      \<and> \<not> disableModules_HaveExplicit (options ?ex) 2 \<and> (2::uint64_t) \<noteq> 1"
    by (simp add: example_SymmetricEncrypt_Executor_def example_ExecutorBase_def
        example_Options_def Let_def)
  have enough: "minModules (options ?ex) \<le> 2"
    by (simp add: example_SymmetricEncrypt_Executor_def example_Options_def Let_def)
  have invoked: "ModuleOp 1 ?op \<in> set (fst (callModule ?ex 1 ?op))"
    by (simp add: example_SymmetricEncrypt_Executor_def Let_def)
  have out: "snd (the (Run ?ex [0, 2, 0] [])) = Aborted ?f"
    by code_simp
  from C9_forceModule_fan_out [OF force registry built accepted]
  obtain tasks where t: "Run_fan_out ?ex ?ops = Return tasks"
    and others: "\<forall>k p. map_of (modules ?ex) k = Some p
                  \<and> \<not> disableModules_HaveExplicit (options ?ex) k \<and> k \<noteq> 1 \<longrightarrow>
                (\<exists>j. length ?ops \<le> j \<and> j < length tasks
                   \<and> tasks ! j = (p, snd (?ops ! 0))
                   \<and> (minModules (options ?ex) \<le> length tasks
                       \<and> snd (snd (snd (Run_loop ?ex 0 (take j tasks) [] []))) = Returned \<longrightarrow>
                      (\<exists>events out. Run ?ex [0, 2, 0] [] = Some (events, out)
                         \<and> CallModule p (snd (?ops ! 0)) \<in> set events
                         \<and> set (fst (callModule ?ex p (snd (?ops ! 0)))) \<subseteq> set events
                         \<and> (ModuleOp p (snd (?ops ! 0))
                              \<in> set (fst (callModule ?ex p (snd (?ops ! 0)))) \<longrightarrow>
                            ModuleOp p (snd (?ops ! 0)) \<in> set events))))"
    by blast
  have tasks: "tasks = [(0, ?op), (1, ?op)]" using t fan by simp
  from others botan obtain j where j: "length ?ops \<le> j" "j < length tasks"
    and run: "minModules (options ?ex) \<le> length tasks
                \<and> snd (snd (snd (Run_loop ?ex 0 (take j tasks) [] []))) = Returned \<longrightarrow>
              (\<exists>events out. Run ?ex [0, 2, 0] [] = Some (events, out)
                 \<and> CallModule 1 (snd (?ops ! 0)) \<in> set events
                 \<and> set (fst (callModule ?ex 1 (snd (?ops ! 0)))) \<subseteq> set events
                 \<and> (ModuleOp 1 (snd (?ops ! 0))
                      \<in> set (fst (callModule ?ex 1 (snd (?ops ! 0)))) \<longrightarrow>
                    ModuleOp 1 (snd (?ops ! 0)) \<in> set events))"
    by blast
  have "j = 1" using j tasks by simp
  then have "take j tasks = [(0, ?op)]" using tasks by simp
  then obtain events out' where r: "Run ?ex [0, 2, 0] [] = Some (events, out')"
    and c: "CallModule 1 ?op \<in> set events"
    and m: "ModuleOp 1 ?op \<in> set (fst (callModule ?ex 1 ?op)) \<longrightarrow> ModuleOp 1 ?op \<in> set events"
    using run before enough tasks by auto
  have "out' = Aborted ?f" using r out by simp
  then have encrypt: "\<exists>events. Run ?ex [0, 2, 0] [] = Some (events, Aborted ?f)
      \<and> CallModule 1 ?op \<in> set events \<and> ModuleOp 1 ?op \<in> set events"
    using r c m invoked by blast
  let ?bx = "example_BignumCalc_Executor (example_Options\<lparr>forceModule := Some 1\<rparr>) example_Environment"
  let ?b = "example_BignumCalc\<lparr>calcOp := CalcOp_Other 0, bn0 := ''1'', modulo := Some ''7''\<rparr>"
  let ?bs = "[(0::nat, ?b)]"
  have b_force: "forceModule (options ?bx) = Some 1"
    by (simp add: example_BignumCalc_Executor_def ExecutorBignumCalc_def Let_def)
  have b_registry: "\<forall>k p. map_of (modules ?bx) k = Some p \<longrightarrow> ID (heap (environment ?bx) p) = k"
    by (simp add: example_BignumCalc_Executor_def ExecutorBignumCalc_def example_ExecutorBase_def
        example_Environment_def example_Module_def Let_def)
  have b_built: "Run_operations ?bx [] [0, 2, 0] [] = Some (Return (?bs, []))"
    by code_simp
  have b_accepted: "?bs \<noteq> []" by simp
  have b_fan: "Run_fan_out ?bx ?bs = Return [(0, ?b), (1, ?b)]"
    by code_simp
  have b_before: "snd (snd (snd (Run_loop ?bx 0 [(0, ?b)] [] []))) = Returned"
    by code_simp
  have b_botan: "map_of (modules ?bx) 2 = Some 1
      \<and> \<not> disableModules_HaveExplicit (options ?bx) 2 \<and> (2::uint64_t) \<noteq> 1"
    by (simp add: example_BignumCalc_Executor_def ExecutorBignumCalc_def example_ExecutorBase_def
        example_Options_def Let_def)
  have b_enough: "minModules (options ?bx) \<le> 2"
    by (simp add: example_BignumCalc_Executor_def ExecutorBignumCalc_def example_Options_def Let_def)
  have b_invoked: "ModuleOp 1 ?b \<in> set (fst (callModule ?bx 1 ?b))"
    by code_simp
  from C9_forceModule_fan_out [OF b_force b_registry b_built b_accepted]
  obtain btasks where bt: "Run_fan_out ?bx ?bs = Return btasks"
    and b_others: "\<forall>k p. map_of (modules ?bx) k = Some p
                  \<and> \<not> disableModules_HaveExplicit (options ?bx) k \<and> k \<noteq> 1 \<longrightarrow>
                (\<exists>j. length ?bs \<le> j \<and> j < length btasks
                   \<and> btasks ! j = (p, snd (?bs ! 0))
                   \<and> (minModules (options ?bx) \<le> length btasks
                       \<and> snd (snd (snd (Run_loop ?bx 0 (take j btasks) [] []))) = Returned \<longrightarrow>
                      (\<exists>events out. Run ?bx [0, 2, 0] [] = Some (events, out)
                         \<and> CallModule p (snd (?bs ! 0)) \<in> set events
                         \<and> set (fst (callModule ?bx p (snd (?bs ! 0)))) \<subseteq> set events
                         \<and> (ModuleOp p (snd (?bs ! 0))
                              \<in> set (fst (callModule ?bx p (snd (?bs ! 0)))) \<longrightarrow>
                            ModuleOp p (snd (?bs ! 0)) \<in> set events))))"
    by blast
  have btasks: "btasks = [(0, ?b), (1, ?b)]" using bt b_fan by simp
  from b_others b_botan obtain i where i: "length ?bs \<le> i" "i < length btasks"
    and b_run: "minModules (options ?bx) \<le> length btasks
                \<and> snd (snd (snd (Run_loop ?bx 0 (take i btasks) [] []))) = Returned \<longrightarrow>
              (\<exists>events out. Run ?bx [0, 2, 0] [] = Some (events, out)
                 \<and> CallModule 1 (snd (?bs ! 0)) \<in> set events
                 \<and> set (fst (callModule ?bx 1 (snd (?bs ! 0)))) \<subseteq> set events
                 \<and> (ModuleOp 1 (snd (?bs ! 0))
                      \<in> set (fst (callModule ?bx 1 (snd (?bs ! 0)))) \<longrightarrow>
                    ModuleOp 1 (snd (?bs ! 0)) \<in> set events))"
    by blast
  have "i = 1" using i btasks by simp
  then have "take i btasks = [(0, ?b)]" using btasks by simp
  then have bignum: "\<exists>events out. Run ?bx [0, 2, 0] [] = Some (events, out)
      \<and> ModuleOp 1 ?b \<in> set events"
    using b_run b_before b_enough btasks b_invoked by auto
  show ?thesis using built encrypt bignum by blast
qed

text \<open>
  The claim as stated fails in these five runs with \<^verbatim>\<open>forceModule\<close> set. In each of them
  an enabled module other than the forced one is never invoked:
  \<^item> \<^verbatim>\<open>minModules\<close> is above the number of tasks, so \<^verbatim>\<open>Run\<close> returns before the execution
    loop;
  \<^item> no module is registered under the forced identifier, so no task is built and there
    is no fan-out;
  \<^item> the Datasource runs out after the first task was accepted, and the exception leaves
    \<^verbatim>\<open>Run\<close> before the fan-out;
  \<^item> the forced module is Botan, and the \<^verbatim>\<open>postprocess\<close> of its task aborts (it cannot
    decrypt its ciphertext) before the task of OpenSSL is reached;
  \<^item> \<^verbatim>\<open>callModule\<close> of BignumCalc is called for Botan and returns at a gate (the operation
    has a modulo, and Botan does not support modular calculations), so \<^verbatim>\<open>OpBignumCalc\<close> of
    Botan is not invoked.
\<close>

theorem C9_counterexample:
  "Run (example_Digest_Executor\<lparr>options := example_Options\<lparr>forceModule := Some 1, minModules := 3\<rparr>\<rparr>)
       [0, 2, 0] [] = Some ([], Returned)
   \<and> Run (example_Digest_Executor\<lparr>options := example_Options\<lparr>forceModule := Some 9\<rparr>\<rparr>)
       [0, 2, 0] [] = Some ([], Returned)
   \<and> Run (example_Digest_Executor\<lparr>options := example_Options\<lparr>forceModule := Some 1\<rparr>\<rparr>)
       [0, 2, 1] [] = Some ([], Exception)
   \<and> Run (example_SymmetricEncrypt_Executor (example_Options\<lparr>forceModule := Some 2\<rparr>)) [0, 2, 0] []
       = Some ([CallModule 1 (example_SymmetricEncrypt\<lparr>modifier := []\<rparr>),
                ModuleOp 1 (example_SymmetricEncrypt\<lparr>modifier := []\<rparr>),
                TestsTest (example_SymmetricEncrypt\<lparr>modifier := []\<rparr>)
                  (Some \<lparr> ciphertext = [0, 6], tag = None \<rparr>),
                memory_test_msan [0, 6],
                ModuleOpSymmetricDecrypt 1
                  \<lparr> modifier = [], decrypt_ciphertext = [0, 6],
                    decrypt_cipher = \<lparr> cipherType = AES_256_GCM \<rparr>, decrypt_tag = None,
                    decrypt_aad = Some [3], cleartextSize = 33 \<rparr>,
                PrintOperation (example_SymmetricEncrypt\<lparr>modifier := []\<rparr>)],
               Aborted \<lparr> failure_moduleNames = [''Botan''], failure_operation = ''SymmetricEncrypt'',
                         failure_algorithm = ''AES_256_GCM'',
                         failure_reason = ''cannot decrypt ciphertext'' \<rparr>)
   \<and> Run (example_BignumCalc_Executor (example_Options\<lparr>forceModule := Some 1\<rparr>)
             example_Environment_plain_Botan) [0, 2, 0] []
       = Some ([CallModule 0 (example_BignumCalc\<lparr>calcOp := CalcOp_Other 0, bn0 := ''1'', modulo := Some ''7''\<rparr>),
                ModuleOp 0 (example_BignumCalc\<lparr>calcOp := CalcOp_Other 0, bn0 := ''1'', modulo := Some ''7''\<rparr>),
                TestsTest (example_BignumCalc\<lparr>calcOp := CalcOp_Other 0, bn0 := ''1'', modulo := Some ''7''\<rparr>)
                  (Some ''1''),
                Pool_Bignum_Set ''1'',
                CallModule 1 (example_BignumCalc\<lparr>calcOp := CalcOp_Other 0, bn0 := ''1'', modulo := Some ''7''\<rparr>),
                TestsTest (example_BignumCalc\<lparr>calcOp := CalcOp_Other 0, bn0 := ''1'', modulo := Some ''7''\<rparr>)
                  None],
               Returned)"
  by code_simp

subsection \<open>The operation reported by the default compare\<close>




end
